theory Spec2Isabelle
  imports Complex_Main "HOL-Library.Log_Nat"
begin

section \<open>Data model\<close>

text \<open>
  The pointer and tooltip code of the charting library works on JavaScript objects that
  refer to each other (chart, pointer, tooltip, series, points, axes, browser events).
  Objects that are shared and mutated are kept in explicit stores, addressed by numbers;
  a reference that can be \<open>undefined\<close> or \<open>null\<close> is an \<open>option\<close>. A JavaScript number
  is modelled by its value, a real (no \<open>NaN\<close> and no infinity except where written
  out); where the code rounds a computed number to a pixel (\<open>normalize\<close>), the result
  depends on the rounding of the double arithmetic, which is written out there. A
  property access on \<open>undefined\<close> or \<open>null\<close> is the error \<open>TypeError\<close>.
\<close>

type_synonym pid = nat
type_synonym sid = nat
type_synonym aid = nat
type_synonym eid = nat

datatype error = TypeError

record svgGroup =
  zIndex :: "real option"

record point =
  p_series :: "sid option"
  p_state :: "string option"
  plotX :: "real option"
  p_x :: real
  isNull :: bool
  p_dist :: real
  p_distX :: real

datatype axisColl = XAxis | YAxis

record crosshairOptions =
  snap :: "bool option"

record axis =
  a_id :: aid
  coll :: axisColl
  crosshair :: "crosshairOptions option"

record series =
  s_index :: nat
  visible :: bool
  directTouch :: bool
  stickyTracking :: bool
  noSharedTooltip :: bool
  enableMouseTracking :: "bool option"
  findNearestPointBy :: string
  inactiveOtherPoints :: bool
  s_group :: "svgGroup option"
  linkedParent :: "sid option"
  linkedSeries :: "sid list"
  navigatorSeries :: "sid option"
  isCartesian :: bool
  s_xAxis :: "axis option"
  s_yAxis :: "axis option"
  s_points :: "pid list"
  s_followPointer :: bool
  s_distance :: "real option"

record offsetObject =
  o_left :: real
  o_top :: real

record touch =
  t_pageX :: real
  t_pageY :: real

text \<open>
  A browser event. \<open>target\<close> lists the \<open>class\<close> attribute of the target element and of
  each of its ancestors, innermost first (\<open>None\<close> where an element has no class);
  \<open>held\<close> lists the modifier-key properties that are true (\<open>''shiftKey''\<close>, ...).
  \<open>touches\<close> is \<open>None\<close> for an event without a list of touches (a mouse event);
  \<open>changedTouches\<close> is empty also where the event has no such list (reading its first
  entry throws as well). Page positions are finite doubles.
\<close>

record event =
  e_type :: string
  pageX :: real
  pageY :: real
  touches :: "touch list option"
  changedTouches :: "touch list"
  chartX :: "real option"
  chartY :: "real option"
  preventDefault :: bool
  returnValue :: "bool option"
  target :: "string option list"
  held :: "string list"

record selectionMarker =
  m_touch :: bool
  m_x :: real
  m_y :: real
  m_width :: real
  m_height :: real

record tooltip =
  enabled :: bool
  hideDelay :: "real option"
  isHidden :: bool
  hideTimer :: "nat option"
  shared :: bool
  t_split :: bool
  t_followPointer :: bool
  len :: nat
  distance :: real
  outside :: bool

record chart =
  index :: nat
  c_series :: "sid list"
  axes :: "axis list"
  hoverPoint :: "pid option"
  hoverPoints :: "pid list option"
  hoverSeries :: "sid option"
  mouseIsDown :: "string option"
  cancelClick :: bool
  c_mouseDownX :: "real option"
  c_mouseDownY :: "real option"
  openMenu :: bool
  plotLeft :: real
  plotTop :: real
  plotWidth :: real
  plotHeight :: real
  chartWidth :: real
  chartHeight :: real
  inverted :: bool
  hasCartesianSeries :: bool
  isBoosting :: bool
  panKey :: "string option"
  panning :: bool

record pointer =
  chartPosition :: "offsetObject option"
  unDocMouseMove :: bool
  hoverX :: "real option"
  isDirectTouch :: bool
  zoomX :: bool
  zoomY :: bool
  zoomHor :: bool
  zoomVert :: bool
  selMarker :: "selectionMarker option"
  mouseDownX :: "real option"
  mouseDownY :: "real option"
  hasDragged :: "real option"

text \<open>
  Calls into collaborators whose code is outside the pointer and tooltip modules (point
  and series state, event firing, axis crosshairs, the label of the tooltip, chart
  panning). Each call is appended to the \<open>trace\<close> of the world.
\<close>

datatype call =
    PointSetState pid "string option" bool
  | PointOnMouseOut pid
  | PointFireEvent pid string
  | SeriesSetState sid string bool
  | SeriesOnMouseOver sid
  | SeriesOnMouseOut sid
  | AxisDrawCrosshair aid "pid option"
  | AxisHideCrosshair aid
  | ChartPan
  | TooltipGetAnchor
  | TooltipUpdatePosition
  | TooltipRenderSplit
  | LabelCall string
  | FireRefresh

datatype timerTask = HideTask real

record world =
  events :: "eid \<Rightarrow> event"
  points :: "pid \<Rightarrow> point"
  allSeries :: "sid \<Rightarrow> series"
  the_chart :: chart
  the_pointer :: pointer
  the_tooltip :: "tooltip option"
  containerOffset :: offsetObject
  pending :: "(nat \<times> timerTask) list"
  nextTimer :: nat
  trace :: "call list"

text \<open>
  The state shared by all charts of the page: the registry \<open>H.charts\<close> (an entry is
  \<open>undefined\<close> once its chart is destroyed) and \<open>H.hoverChartIndex\<close>. Each chart has
  its own world; a collaborator call made for one chart changes that world only.
\<close>

record globals =
  charts :: "world option list"
  hoverChartIndex :: "nat option"

text \<open>The result of \<open>getHoverData\<close>.\<close>

record hoverData =
  hd_hoverPoint :: "pid option"
  hd_hoverSeries :: "sid option"
  hd_hoverPoints :: "pid list"

text \<open>
  What the environment of the pointer does: \<open>effect\<close> is the change a collaborator
  call (and any event handler it runs) makes to the world; \<open>searchPoint\<close> is the
  per-series k-d tree lookup; \<open>getPoint\<close> turns a boost point into a full point;
  \<open>formatter\<close> is the tooltip formatter (\<open>None\<close> when it returns \<open>false\<close>);
  \<open>syncZero\<close> says whether a timeout of zero runs its callback at once.
\<close>

record env =
  effect :: "call \<Rightarrow> world \<Rightarrow> world"
  searchPoint :: "world \<Rightarrow> sid \<Rightarrow> event \<Rightarrow> bool \<Rightarrow> pid option"
  getPoint :: "sid \<Rightarrow> pid \<Rightarrow> pid"
  formatter :: "world \<Rightarrow> pid list \<Rightarrow> string option"
  syncZero :: bool

definition invoke :: "env \<Rightarrow> call \<Rightarrow> world \<Rightarrow> world" where
  "invoke E c w = (effect E c w)\<lparr>trace := trace w @ [c]\<rparr>"

section \<open>Nearest-point resolver\<close>

text \<open>\<open>p.series.group && p.series.group.zIndex\<close>; \<open>None\<close> is \<open>undefined\<close>.\<close>

definition groupZIndex :: "world \<Rightarrow> sid \<Rightarrow> real option" where
  "groupZIndex w s = (case s_group (allSeries w s) of None \<Rightarrow> None | Some g \<Rightarrow> zIndex g)"

text \<open>
  The comparison function \<open>sort\<close> of \<open>findNearestKDPoint\<close>, here \<open>sort_cmp\<close>. Its
  result is a JavaScript number; \<open>None\<close> is \<open>NaN\<close> (a subtraction with an
  \<open>undefined\<close> z-index).
\<close>

definition sort_cmp :: "world \<Rightarrow> bool \<Rightarrow> pid \<Rightarrow> pid \<Rightarrow> error + real option" where
  "sort_cmp w shared' p1 p2 =
     (case (p_series (points w p2), p_series (points w p1)) of
        (Some s2, Some s1) \<Rightarrow>
          (let isCloserX = p_distX (points w p1) - p_distX (points w p2);
               isCloser = p_dist (points w p1) - p_dist (points w p2);
               isAbove = (case (groupZIndex w s2, groupZIndex w s1) of
                            (Some z2, Some z1) \<Rightarrow> Some (z2 - z1)
                          | _ \<Rightarrow> None)
           in if isCloserX \<noteq> 0 \<and> shared' then Inr (Some isCloserX)
              else if isCloser \<noteq> 0 then Inr (Some isCloser)
              else if isAbove \<noteq> Some 0 then Inr isAbove
              else Inr (Some (if s_index (allSeries w s1) > s_index (allSeries w s2)
                              then -1 else 1)))
      | _ \<Rightarrow> Inl TypeError)"

definition compareX :: "world \<Rightarrow> bool \<Rightarrow> sid \<Rightarrow> bool" where
  "compareX w shared' s =
     (\<not> (noSharedTooltip (allSeries w s) \<and> shared') \<and>
      CHR ''y'' \<notin> set (findNearestPointBy (allSeries w s)))"

fun kdLoop :: "env \<Rightarrow> world \<Rightarrow> bool \<Rightarrow> event \<Rightarrow> sid list \<Rightarrow> pid option \<Rightarrow> error + pid option" where
  "kdLoop E w shared' e [] closest = Inr closest"
| "kdLoop E w shared' e (s # ss) closest =
     (case searchPoint E w s e (compareX w shared' s) of
        None \<Rightarrow> kdLoop E w shared' e ss closest
      | Some pt \<Rightarrow>
          (case closest of
             None \<Rightarrow> kdLoop E w shared' e ss (Some pt)
           | Some c \<Rightarrow>
               (case sort_cmp w shared' c pt of
                  Inl err \<Rightarrow> Inl err
                | Inr r \<Rightarrow>
                    if (case r of None \<Rightarrow> False | Some v \<Rightarrow> v > 0)
                    then kdLoop E w shared' e ss (Some pt)
                    else kdLoop E w shared' e ss closest)))"

definition findNearestKDPoint :: "env \<Rightarrow> world \<Rightarrow> sid list \<Rightarrow> bool \<Rightarrow> event \<Rightarrow> error + pid option" where
  "findNearestKDPoint E w ss shared' e = kdLoop E w shared' e ss None"


section \<open>Tooltip placement\<close>

text \<open>
  \<open>Tooltip.getPosition\<close>. The arrays \<open>first\<close> and \<open>second\<close> of the source hold the
  arguments of \<open>firstDimension\<close> and \<open>secondDimension\<close>; the object \<open>ret\<close> starts
  empty, so each of its coordinates is an \<open>option\<close>.
\<close>

datatype dimName = DimX | DimY

record dimArgs =
  d_dim :: dimName
  outerSize :: real
  innerSize :: real
  d_point :: real
  d_min :: real
  d_max :: real

record position =
  pos_x :: "real option"
  pos_y :: "real option"

record tooltipPoint =
  tp_plotX :: real
  tp_plotY :: real
  ttBelow :: "bool option"
  negative :: "bool option"
  tp_h :: "real option"

record document =
  clientWidth :: real
  clientHeight :: real
  bodyScrollHeight :: real
  docScrollHeight :: real
  bodyOffsetHeight :: real
  docOffsetHeight :: real

definition setRet :: "dimName \<Rightarrow> real \<Rightarrow> position \<Rightarrow> position" where
  "setRet d v r = (case d of DimX \<Rightarrow> r\<lparr>pos_x := Some v\<rparr> | DimY \<Rightarrow> r\<lparr>pos_y := Some v\<rparr>)"

text \<open>
  \<open>firstDimension\<close> and \<open>secondDimension\<close> are closures over \<open>distance\<close>, \<open>h\<close>,
  \<open>preferFarSide\<close> and \<open>ret\<close>; here these are parameters, and the result is the new
  \<open>ret\<close>, or \<open>None\<close> where the source returns \<open>false\<close>.
\<close>

definition firstDimension :: "real \<Rightarrow> real \<Rightarrow> bool \<Rightarrow> dimArgs \<Rightarrow> position \<Rightarrow> position option" where
  "firstDimension dst h preferFarSide a r =
     (let roomLeft = innerSize a < d_point a - dst;
          roomRight = d_point a + dst + innerSize a < outerSize a;
          alignedLeft = d_point a - dst - innerSize a;
          alignedRight = d_point a + dst
      in if preferFarSide \<and> roomRight then Some (setRet (d_dim a) alignedRight r)
         else if \<not> preferFarSide \<and> roomLeft then Some (setRet (d_dim a) alignedLeft r)
         else if roomLeft then
           Some (setRet (d_dim a)
                  (min (d_max a - innerSize a)
                       (if alignedLeft - h < 0 then alignedLeft else alignedLeft - h)) r)
         else if roomRight then
           Some (setRet (d_dim a)
                  (max (d_min a)
                       (if alignedRight + h + innerSize a > outerSize a then alignedRight
                        else alignedRight + h)) r)
         else None)"

definition secondDimension :: "real \<Rightarrow> dimArgs \<Rightarrow> position \<Rightarrow> position option" where
  "secondDimension dst a r =
     (if d_point a < dst \<or> d_point a > outerSize a - dst then None
      else if d_point a < innerSize a / 2 then Some (setRet (d_dim a) 1 r)
      else if d_point a > outerSize a - innerSize a / 2 then
        Some (setRet (d_dim a) (outerSize a - innerSize a - 2) r)
      else Some (setRet (d_dim a) (d_point a - innerSize a / 2) r))"

text \<open>
  The local state of \<open>getPosition\<close> that \<open>swap\<close> and \<open>run\<close> change. \<open>swapped\<close> is
  \<open>undefined\<close> until \<open>swap(true)\<close>; \<open>swapCount\<close> is not in the source: it counts the
  calls of \<open>swap\<close>, so that "swapped once" can be stated.
\<close>

record runState =
  first :: dimArgs
  second :: dimArgs
  swapped :: "bool option"
  ret :: position
  swapCount :: nat

definition swap :: "bool option \<Rightarrow> runState \<Rightarrow> runState" where
  "swap count st = st\<lparr>first := second st, second := first st, swapped := count,
                       swapCount := Suc (swapCount st)\<rparr>"

function run :: "real \<Rightarrow> real \<Rightarrow> bool \<Rightarrow> runState \<Rightarrow> runState" where
  "run dst h preferFarSide st =
     (case firstDimension dst h preferFarSide (first st) (ret st) of
        Some r1 \<Rightarrow>
          (case secondDimension dst (second st) r1 of
             None \<Rightarrow>
               if swapped st \<noteq> Some True
               then run dst h preferFarSide (swap (Some True) (st\<lparr>ret := r1\<rparr>))
               else st\<lparr>ret := r1\<rparr>
           | Some r2 \<Rightarrow> st\<lparr>ret := r2\<rparr>)
      | None \<Rightarrow>
          if swapped st \<noteq> Some True
          then run dst h preferFarSide (swap (Some True) st)
          else st\<lparr>ret := \<lparr>pos_x = Some 0, pos_y = Some 0\<rparr>\<rparr>)"
  by pat_completeness auto
termination
  by (relation "measure (\<lambda>(dst, h, p, st). if swapped st = Some True then 0 else 1)")
     (auto simp: swap_def)

text \<open>
  The state in which \<open>getPosition\<close> calls \<open>run\<close>, after the optional first \<open>swap()\<close>.
  \<open>chart.pointer.chartPosition\<close> is read only when the tooltip is \<open>outside\<close>.
\<close>

definition positionLeft :: "pointer \<Rightarrow> real" where
  "positionLeft ptr = (case chartPosition ptr of Some cp \<Rightarrow> o_left cp | None \<Rightarrow> 0)"

definition positionTop :: "pointer \<Rightarrow> real" where
  "positionTop ptr = (case chartPosition ptr of Some cp \<Rightarrow> o_top cp | None \<Rightarrow> 0)"

definition getPositionStart ::
  "document \<Rightarrow> chart \<Rightarrow> pointer \<Rightarrow> tooltip \<Rightarrow> real \<Rightarrow> real \<Rightarrow> tooltipPoint \<Rightarrow> runState" where
  "getPositionStart doc ch ptr t boxWidth boxHeight pt =
     (let outerWidth = (if outside t then clientWidth doc - 2 * distance t else chartWidth ch);
          outerHeight = (if outside t
                         then Max {bodyScrollHeight doc, docScrollHeight doc,
                                   bodyOffsetHeight doc, docOffsetHeight doc, clientHeight doc}
                         else chartHeight ch);
          st = \<lparr>first = \<lparr>d_dim = DimY, outerSize = outerHeight, innerSize = boxHeight,
                          d_point = (if outside t then positionTop ptr - distance t else 0)
                                    + tp_plotY pt + plotTop ch,
                          d_min = (if outside t then 0 else plotTop ch),
                          d_max = (if outside t then outerHeight else plotTop ch + plotHeight ch)\<rparr>,
                second = \<lparr>d_dim = DimX, outerSize = outerWidth, innerSize = boxWidth,
                           d_point = (if outside t then positionLeft ptr - distance t else 0)
                                     + tp_plotX pt + plotLeft ch,
                           d_min = (if outside t then 0 else plotLeft ch),
                           d_max = (if outside t then outerWidth else plotLeft ch + plotWidth ch)\<rparr>,
                swapped = None, ret = \<lparr>pos_x = None, pos_y = None\<rparr>, swapCount = 0\<rparr>
      in if inverted ch \<or> len t > 1 then swap None st else st)"

definition heightOffset :: "chart \<Rightarrow> tooltipPoint \<Rightarrow> real" where
  "heightOffset ch pt = (if inverted ch then (case tp_h pt of Some v \<Rightarrow> v | None \<Rightarrow> 0) else 0)"

definition preferFarSide :: "chart \<Rightarrow> tooltip \<Rightarrow> tooltipPoint \<Rightarrow> bool" where
  "preferFarSide ch t pt =
     (\<not> t_followPointer t \<and>
      (case ttBelow pt of Some b \<Rightarrow> b
       | None \<Rightarrow> (\<not> inverted ch) = (negative pt = Some True)))"

definition getPositionRun ::
  "document \<Rightarrow> chart \<Rightarrow> pointer \<Rightarrow> tooltip \<Rightarrow> real \<Rightarrow> real \<Rightarrow> tooltipPoint \<Rightarrow> runState" where
  "getPositionRun doc ch ptr t boxWidth boxHeight pt =
     run (distance t) (heightOffset ch pt) (preferFarSide ch t pt)
       (getPositionStart doc ch ptr t boxWidth boxHeight pt)"

text \<open>With an \<open>outside\<close> tooltip a missing \<open>chartPosition\<close> is a \<open>TypeError\<close>.\<close>

definition getPosition ::
  "document \<Rightarrow> chart \<Rightarrow> pointer \<Rightarrow> tooltip \<Rightarrow> real \<Rightarrow> real \<Rightarrow> tooltipPoint \<Rightarrow> error + position" where
  "getPosition doc ch ptr t boxWidth boxHeight pt =
     (if outside t \<and> chartPosition ptr = None then Inl TypeError
      else Inr (ret (getPositionRun doc ch ptr t boxWidth boxHeight pt)))"


section \<open>Numbers\<close>

text \<open>
  The numbers of JavaScript are the doubles of IEEE 754 (binary64), and an arithmetic
  operation gives the double that is nearest to the exact result, a tie going to the
  double with the even significand. \<open>binary64 x\<close> is that double for the real \<open>x\<close>:
  with \<open>exponentOf x\<close> the floor of the binary logarithm of \<open>\<bar>x\<bar>\<close>, the doubles around
  \<open>x\<close> are the multiples of \<open>2 powi (exponentOf x - 52)\<close> (53 significant bits), and of
  \<open>2 powi (- 1074)\<close> in the subnormal range. The model has no infinite number: the code
  gives \<open>Infinity\<close> where \<open>\<bar>x\<bar>\<close> is \<open>2 ^ 1024 - 2 ^ 970\<close> or more, and \<open>binary64\<close> is
  meant below that only. \<open>minus64\<close> is the operator \<open>-\<close> on two doubles, and
  \<open>Math_round\<close> is \<open>Math.round\<close>: the nearest integer, a tie going up (the sign of a
  zero is not modelled).
\<close>

definition roundHalfEven :: "real \<Rightarrow> int" where
  "roundHalfEven x =
     (let f = \<lfloor>x\<rfloor>; r = x - of_int f
      in if r < 1/2 then f else if 1/2 < r then f + 1 else if even f then f else f + 1)"

definition exponentOf :: "real \<Rightarrow> int" where
  "exponentOf x =
     (if 1 \<le> \<bar>x\<bar> then bitlen \<lfloor>\<bar>x\<bar>\<rfloor> - 1 else - bitlen (\<lceil>1 / \<bar>x\<bar>\<rceil> - 1))"

definition binary64 :: "real \<Rightarrow> real" where
  "binary64 x =
     (if x = 0 then 0
      else (let e = max (exponentOf x - 52) (- 1074)
            in of_int (roundHalfEven (x / 2 powi e)) * 2 powi e))"

definition minus64 :: "real \<Rightarrow> real \<Rightarrow> real" where
  "minus64 x y = binary64 (x - y)"

definition Math_round :: "real \<Rightarrow> real" where
  "Math_round x = of_int \<lfloor>x + 1/2\<rfloor>"

section \<open>Event normalizer\<close>

text \<open>
  Modelled from the spec: \<open>H.extend\<close> (Utilities.js) is not among the sources, and the
  specification does not describe it. It is modelled from its uses in the pointer and the
  tooltip: \<open>extend(e, this.getCoordinates(e))\<close> and \<open>extend(now, {...})\<close> discard the
  result and go on with the first argument, and \<open>normalize\<close> is documented to return
  "a browser event with extended properties". So \<open>extend(a, b)\<close> writes the properties
  of \<open>b\<close> into the object \<open>a\<close> and returns \<open>a\<close>. The properties are given as an update
  of the event.
\<close>

definition extend :: "eid \<Rightarrow> (event \<Rightarrow> event) \<Rightarrow> world \<Rightarrow> eid \<times> world" where
  "extend a b w = (a, w\<lparr>events := (events w)(a := b (events w a))\<rparr>)"

text \<open>
  \<open>Pointer.normalize\<close> is \<open>normalize_event\<close> here. The variable \<open>ePos\<close> is the object
  whose page position is read: the event itself when it has no \<open>touches\<close>, else the
  first touch, else (the list of touches is empty) the first changed touch; \<open>None\<close>
  when \<open>changedTouches[0]\<close> is \<open>undefined\<close>, where reading \<open>ePos.pageX\<close> throws. The
  new properties are \<open>Math.round(ePos.pageX - chartPosition.left)\<close> and
  \<open>Math.round(ePos.pageY - chartPosition.top)\<close>.
\<close>

definition ePos :: "event \<Rightarrow> (real \<times> real) option" where
  "ePos ev =
     (case touches ev of
        None \<Rightarrow> Some (pageX ev, pageY ev)
      | Some ts \<Rightarrow>
          (case ts of
             t # _ \<Rightarrow> Some (t_pageX t, t_pageY t)
           | [] \<Rightarrow> (case changedTouches ev of
                      c # _ \<Rightarrow> Some (t_pageX c, t_pageY c)
                    | [] \<Rightarrow> None)))"

definition normalize_event :: "eid \<Rightarrow> offsetObject option \<Rightarrow> world \<Rightarrow> error + (eid \<times> world)" where
  "normalize_event e chartPosition' w =
     (let cp = (case chartPosition' of Some c \<Rightarrow> c | None \<Rightarrow> containerOffset w);
          w1 = (case chartPosition' of Some c \<Rightarrow> w
                | None \<Rightarrow> w\<lparr>the_pointer := (the_pointer w)\<lparr>chartPosition := Some (containerOffset w)\<rparr>\<rparr>)
      in case ePos (events w e) of
           None \<Rightarrow> Inl TypeError
         | Some (px, py) \<Rightarrow>
             Inr (extend e (\<lambda>ev. ev\<lparr>chartX := Some (Math_round (minus64 px (o_left cp))),
                                    chartY := Some (Math_round (minus64 py (o_top cp)))\<rparr>) w1))"

section \<open>Drag gesture\<close>

definition isInsidePlot :: "chart \<Rightarrow> real \<Rightarrow> real \<Rightarrow> bool \<Rightarrow> bool" where
  "isInsidePlot ch plotX' plotY' inverted' =
     (let x = (if inverted' then plotY' else plotX');
          y = (if inverted' then plotX' else plotY')
      in x \<ge> 0 \<and> x \<le> plotWidth ch \<and> y \<ge> 0 \<and> y \<le> plotHeight ch)"

definition dragStart :: "event \<Rightarrow> world \<Rightarrow> world" where
  "dragStart e w =
     w\<lparr>the_chart := (the_chart w)\<lparr>mouseIsDown := Some (e_type e), cancelClick := False,
                                    c_mouseDownX := chartX e, c_mouseDownY := chartY e\<rparr>,
       the_pointer := (the_pointer w)\<lparr>mouseDownX := chartX e, mouseDownY := chartY e\<rparr>\<rparr>"

text \<open>\<open>chartOptions.panKey && e[chartOptions.panKey + 'Key']\<close>\<close>

definition panKeyHeld :: "chart \<Rightarrow> event \<Rightarrow> bool" where
  "panKeyHeld ch e =
     (case panKey ch of None \<Rightarrow> False | Some k \<Rightarrow> k \<noteq> [] \<and> (k @ ''Key'') \<in> set (held e))"

definition clampTo :: "real \<Rightarrow> real \<Rightarrow> real \<Rightarrow> real" where
  "clampTo lo extent v = (if v < lo then lo else if v > lo + extent then lo + extent else v)"

text \<open>
  \<open>drag\<close>. The selection marker is the rectangle made by \<open>chart.renderer.rect\<close>; its
  \<open>attr\<close> calls set the fields of the record. A coordinate that is \<open>undefined\<close> makes
  \<open>hasDragged\<close> \<open>NaN\<close> (here \<open>None\<close>), which is not greater than 10.
\<close>

definition drag :: "env \<Rightarrow> event \<Rightarrow> world \<Rightarrow> world" where
  "drag E e w =
     (let ch = the_chart w; ptr = the_pointer w; selectionMarker = selMarker ptr
      in if (case selectionMarker of Some m \<Rightarrow> m_touch m | None \<Rightarrow> False) then w
         else
           (case (chartX e, chartY e, mouseDownX ptr, mouseDownY ptr) of
              (Some cx0, Some cy0, Some mdx, Some mdy) \<Rightarrow>
                (let cx = clampTo (plotLeft ch) (plotWidth ch) cx0;
                     cy = clampTo (plotTop ch) (plotHeight ch) cy0;
                     dragged = sqrt ((mdx - cx)\<^sup>2 + (mdy - cy)\<^sup>2);
                     w1 = w\<lparr>the_pointer := ptr\<lparr>hasDragged := Some dragged\<rparr>\<rparr>
                 in if dragged > 10 then
                      (let clickedInside = isInsidePlot ch (mdx - plotLeft ch) (mdy - plotTop ch) False;
                           sm1 = (if hasCartesianSeries ch \<and> (zoomX ptr \<or> zoomY ptr) \<and>
                                     clickedInside \<and> \<not> panKeyHeld ch e
                                  then (case selectionMarker of
                                          None \<Rightarrow>
                                            Some \<lparr>m_touch = False, m_x = plotLeft ch, m_y = plotTop ch,
                                                  m_width = (if zoomHor ptr then 1 else plotWidth ch),
                                                  m_height = (if zoomVert ptr then 1 else plotHeight ch)\<rparr>
                                        | Some m \<Rightarrow> Some m)
                                  else selectionMarker);
                           sm2 = (case sm1 of
                                    Some m \<Rightarrow>
                                      if zoomHor ptr
                                      then Some (m\<lparr>m_width := \<bar>cx - mdx\<bar>,
                                                   m_x := (if cx - mdx > 0 then 0 else cx - mdx) + mdx\<rparr>)
                                      else Some m
                                  | None \<Rightarrow> None);
                           sm3 = (case sm2 of
                                    Some m \<Rightarrow>
                                      if zoomVert ptr
                                      then Some (m\<lparr>m_height := \<bar>cy - mdy\<bar>,
                                                   m_y := (if cy - mdy > 0 then 0 else cy - mdy) + mdy\<rparr>)
                                      else Some m
                                  | None \<Rightarrow> None);
                           w2 = w1\<lparr>the_pointer := (the_pointer w1)\<lparr>selMarker := sm3\<rparr>\<rparr>
                       in if clickedInside \<and> sm3 = None \<and> panning ch
                          then invoke E ChartPan w2 else w2)
                    else w1)
            | _ \<Rightarrow> w\<lparr>the_pointer := ptr\<lparr>hasDragged := None\<rparr>\<rparr>))"

text \<open>A sequence of move events while the mouse is down.\<close>

fun drags :: "env \<Rightarrow> event list \<Rightarrow> world \<Rightarrow> world" where
  "drags E [] w = w"
| "drags E (e # es) w = drags E es (drag E e w)"

section \<open>Class lookup\<close>

fun startsWith :: "string \<Rightarrow> string \<Rightarrow> bool" where
  "startsWith s [] = True"
| "startsWith [] (c # cs) = False"
| "startsWith (x # xs) (c # cs) = (x = c \<and> startsWith xs cs)"

fun containsStr :: "string \<Rightarrow> string \<Rightarrow> bool" where
  "containsStr [] sub = (sub = [])"
| "containsStr (x # xs) sub = (startsWith (x # xs) sub \<or> containsStr xs sub)"

text \<open>
  \<open>inClass\<close> walks from the element up through its parents; the result \<open>undefined\<close> at
  the end of the chain is \<open>False\<close>.
\<close>

fun inClass :: "string option list \<Rightarrow> string \<Rightarrow> bool" where
  "inClass [] className = False"
| "inClass (el # parents) className =
     (case el of
        None \<Rightarrow> inClass parents className
      | Some elemClassName \<Rightarrow>
          if elemClassName = [] then inClass parents className
          else if containsStr elemClassName className then True
          else if containsStr elemClassName ''highcharts-container'' then False
          else inClass parents className)"


section \<open>Tooltip timers, hide and refresh\<close>

text \<open>
  The browser's timers are the list \<open>pending\<close> of the world: \<open>setTimeout\<close> adds an
  entry under a fresh number, and the browser later runs a pending entry (\<open>fireTimer\<close>).

  Modelled from the spec: \<open>H.clearTimeout\<close> (Utilities.js) is not among the sources. By
  the specification a refresh or reset cancels any pending hide timer: the timer of the
  given number is no longer pending; \<open>undefined\<close> cancels nothing.
\<close>

definition clearTimeout :: "nat option \<Rightarrow> world \<Rightarrow> world" where
  "clearTimeout tid w =
     (case tid of None \<Rightarrow> w
      | Some i \<Rightarrow> w\<lparr>pending := filter (\<lambda>(j, task). j \<noteq> i) (pending w)\<rparr>)"

definition updTooltip :: "(tooltip \<Rightarrow> tooltip) \<Rightarrow> world \<Rightarrow> world" where
  "updTooltip f w = w\<lparr>the_tooltip := map_option f (the_tooltip w)\<rparr>"

text \<open>The function that \<open>hide\<close> hands to \<open>syncTimeout\<close>.\<close>

definition hideCallback :: "env \<Rightarrow> real \<Rightarrow> world \<Rightarrow> world" where
  "hideCallback E delay w =
     updTooltip (\<lambda>t. t\<lparr>isHidden := True\<rparr>)
       (invoke E (LabelCall (if delay \<noteq> 0 then ''fadeOut'' else ''hide'')) w)"

text \<open>
  Modelled from the spec: \<open>H.syncTimeout\<close> (Utilities.js) is not among the sources. The
  specification says that the hide-delay timer defers the hide by a configurable duration;
  so a positive delay schedules the callback. Whether a delay of zero runs the callback at
  once is left to the parameter \<open>syncZero\<close>. The result is the number of the timer, if
  one was set.
\<close>

definition syncTimeout :: "env \<Rightarrow> real \<Rightarrow> world \<Rightarrow> nat option \<times> world" where
  "syncTimeout E delay w =
     (if delay > 0 \<or> \<not> syncZero E
      then (Some (nextTimer w),
            w\<lparr>pending := pending w @ [(nextTimer w, HideTask delay)],
              nextTimer := Suc (nextTimer w)\<rparr>)
      else (None, hideCallback E delay w))"

text \<open>
  \<open>Tooltip.hide\<close>, a method of the tooltip of the chart (nothing to do where the chart
  has none).
\<close>

definition hide :: "env \<Rightarrow> real option \<Rightarrow> world \<Rightarrow> world" where
  "hide E delay w =
     (case the_tooltip w of
        None \<Rightarrow> w
      | Some t \<Rightarrow>
          (let w1 = clearTimeout (hideTimer t) w;
               delay' = (case delay of Some d \<Rightarrow> d
                         | None \<Rightarrow> (case hideDelay t of Some d \<Rightarrow> d | None \<Rightarrow> 500))
           in if \<not> isHidden t
              then (let (tid, w2) = syncTimeout E delay' w1
                    in updTooltip (\<lambda>t'. t'\<lparr>hideTimer := tid\<rparr>) w2)
              else w1))"


fun getActiveSeries :: "world \<Rightarrow> pid list \<Rightarrow> error + sid list" where
  "getActiveSeries w [] = Inr []"
| "getActiveSeries w (item # rest) =
     (case p_series (points w item) of
        None \<Rightarrow> Inl TypeError
      | Some s \<Rightarrow>
          (case getActiveSeries w rest of
             Inl err \<Rightarrow> Inl err
           | Inr others \<Rightarrow>
               Inr (s # (case linkedParent (allSeries w s) of Some lp \<Rightarrow> [lp] | None \<Rightarrow> [])
                      @ linkedSeries (allSeries w s)
                      @ (case navigatorSeries (allSeries w s) of Some n \<Rightarrow> [n] | None \<Rightarrow> [])
                      @ others)))"

text \<open>
  \<open>chart.series.forEach\<close>: every series that is not active, or that dims its own other
  points, is set to the inactive state.
\<close>

fun setInactive :: "env \<Rightarrow> sid list \<Rightarrow> sid list \<Rightarrow> world \<Rightarrow> world" where
  "setInactive E activeSeries [] w = w"
| "setInactive E activeSeries (s # ss) w =
     setInactive E activeSeries ss
       (if inactiveOtherPoints (allSeries w s) \<or> s \<notin> set activeSeries
        then invoke E (SeriesSetState s ''inactive'' True) w else w)"

text \<open>\<open>p.setState(state)\<close> for each point of a list.\<close>

fun setStates :: "env \<Rightarrow> string option \<Rightarrow> pid list \<Rightarrow> world \<Rightarrow> world" where
  "setStates E st [] w = w"
| "setStates E st (p # ps) w = setStates E st ps (invoke E (PointSetState p st False) w)"

text \<open>
  Modelled from the spec: \<open>H.splat\<close> (Utilities.js) is not among the sources. The tooltip
  is refreshed for a single point or for an array of points, and \<open>splat\<close> makes an array
  of either.
\<close>

datatype pointArg = Single pid | Multi "pid list"

definition splat :: "pointArg \<Rightarrow> pid list" where
  "splat a = (case a of Single p \<Rightarrow> [p] | Multi ps \<Rightarrow> ps)"

text \<open>
  \<open>Tooltip.refresh\<close>, in three definitions. The anchor, the label and the position of
  the tooltip are the work of collaborators and are recorded as calls; the formatter is
  \<open>formatter E\<close>.

  \<open>refreshStates\<close> is the branch on the shared tooltip: the inactive state of the other
  series and the hover state of the points; its result is the new \<open>len\<close> and the world.
  In the shared branch a single point has no \<open>forEach\<close>, in the other branch an array
  has no \<open>getLabelConfig\<close>: both are \<open>TypeError\<close>.
\<close>

definition refreshStates :: "env \<Rightarrow> bool \<Rightarrow> pointArg \<Rightarrow> world \<Rightarrow> error + (nat \<times> world)" where
  "refreshStates E sharedBranch pointOrPoints w =
     (if sharedBranch
      then (case pointOrPoints of
              Single p \<Rightarrow> Inl TypeError
            | Multi ps \<Rightarrow>
                (case getActiveSeries w ps of
                   Inl err \<Rightarrow> Inl err
                 | Inr activeSeries \<Rightarrow>
                     Inr (length ps,
                          setStates E (Some ''hover'') ps
                            (setInactive E activeSeries (c_series (the_chart w)) w))))
      else (case pointOrPoints of
              Single p \<Rightarrow> Inr (0, w)
            | Multi ps \<Rightarrow> Inl TypeError))"

text \<open>
  \<open>refreshLabel\<close> is the end of \<open>refresh\<close>: when the formatter returns \<open>false\<close> the
  tooltip is hidden, else the label is shown, filled and placed, and the tooltip counts as
  visible.
\<close>

definition refreshLabel :: "env \<Rightarrow> bool \<Rightarrow> string option \<Rightarrow> world \<Rightarrow> world" where
  "refreshLabel E split' formatted w =
     (case formatted of
        None \<Rightarrow> hide E None w
      | Some txt \<Rightarrow>
          (let w1 = (if (case the_tooltip w of Some t \<Rightarrow> isHidden t | None \<Rightarrow> False)
                     then invoke E (LabelCall ''show'') w else w);
               w2 = (if split' then invoke E TooltipRenderSplit w1
                     else invoke E TooltipUpdatePosition (invoke E (LabelCall ''attr'') w1))
           in updTooltip (\<lambda>t. t\<lparr>isHidden := False\<rparr>) w2))"

definition refresh :: "env \<Rightarrow> pointArg \<Rightarrow> world \<Rightarrow> error + world" where
  "refresh E pointOrPoints w =
     (case the_tooltip w of
        None \<Rightarrow> Inr w
      | Some t \<Rightarrow>
          if \<not> enabled t then Inr w
          else
            (let w1 = clearTimeout (hideTimer t) w
             in case splat pointOrPoints of
                  [] \<Rightarrow> Inl TypeError
                | p0 # _ \<Rightarrow>
                    (case p_series (points w1 p0) of
                       None \<Rightarrow> Inl TypeError
                     | Some s0 \<Rightarrow>
                         (let w2 = updTooltip (\<lambda>t'. t'\<lparr>t_followPointer := s_followPointer (allSeries w1 s0)\<rparr>) w1;
                              w3 = invoke E TooltipGetAnchor w2;
                              sharedBranch =
                                (shared t \<and>
                                 \<not> (case pointOrPoints of
                                      Single p \<Rightarrow> (case p_series (points w3 p) of
                                                     Some s \<Rightarrow> noSharedTooltip (allSeries w3 s)
                                                   | None \<Rightarrow> False)
                                    | Multi ps \<Rightarrow> False))
                          in case refreshStates E sharedBranch pointOrPoints w3 of
                               Inl err \<Rightarrow> Inl err
                             | Inr (n, w4) \<Rightarrow>
                                 (let w5 = updTooltip (\<lambda>t'. t'\<lparr>len := n\<rparr>) w4;
                                      formatted = formatter E w5 (splat pointOrPoints)
                                  in case p_series (points w5 p0) of
                                       None \<Rightarrow> Inl TypeError
                                     | Some currentSeries \<Rightarrow>
                                         (let w6 = updTooltip
                                                     (\<lambda>t'. t'\<lparr>distance :=
                                                        (case s_distance (allSeries w5 currentSeries) of
                                                           Some d \<Rightarrow> d | None \<Rightarrow> 16)\<rparr>) w5
                                          in Inr (invoke E FireRefresh
                                                    (refreshLabel E (t_split t) formatted w6))))))))"

section \<open>Hover state: reset\<close>

text \<open>
  The first loop of \<open>reset\<close>: \<open>allowMove\<close> becomes false when a tooltip point of a
  cartesian series has no \<open>plotX\<close>; \<open>point.series.isCartesian\<close> throws for a point
  without series.
\<close>

fun stillInside :: "world \<Rightarrow> pid list \<Rightarrow> error + bool" where
  "stillInside w [] = Inr True"
| "stillInside w (p # ps) =
     (case p_series (points w p) of
        None \<Rightarrow> Inl TypeError
      | Some s \<Rightarrow>
          (case stillInside w ps of
             Inl err \<Rightarrow> Inl err
           | Inr b \<Rightarrow> Inr (b \<and> \<not> (isCartesian (allSeries w s) \<and> plotX (points w p) = None))))"

text \<open>The loop over \<open>hoverPoints\<close> in the move branch (shared tooltip).\<close>

fun moveSharedPoints :: "env \<Rightarrow> pid list \<Rightarrow> world \<Rightarrow> error + world" where
  "moveSharedPoints E [] w = Inr w"
| "moveSharedPoints E (p # ps) w =
     (let w1 = invoke E (PointSetState p (p_state (points w p)) True) w
      in case p_series (points w1 p) of
           None \<Rightarrow> Inl TypeError
         | Some s \<Rightarrow>
             if isCartesian (allSeries w1 s) then
               (case s_xAxis (allSeries w1 s) of
                  None \<Rightarrow> Inl TypeError
                | Some xa \<Rightarrow>
                    (let w2 = (if crosshair xa \<noteq> None
                               then invoke E (AxisDrawCrosshair (a_id xa) (Some p)) w1 else w1)
                     in case p_series (points w2 p) of
                          None \<Rightarrow> Inl TypeError
                        | Some s' \<Rightarrow>
                            (case s_yAxis (allSeries w2 s') of
                               None \<Rightarrow> Inl TypeError
                             | Some ya \<Rightarrow>
                                 moveSharedPoints E ps
                                   (if crosshair ya \<noteq> None
                                    then invoke E (AxisDrawCrosshair (a_id ya) (Some p)) w2
                                    else w2))))
             else moveSharedPoints E ps w1)"

fun drawCrosshairsAt :: "env \<Rightarrow> pid \<Rightarrow> axis list \<Rightarrow> world \<Rightarrow> world" where
  "drawCrosshairsAt E p [] w = w"
| "drawCrosshairsAt E p (a # as) w =
     drawCrosshairsAt E p as
       (if crosshair a \<noteq> None then invoke E (AxisDrawCrosshair (a_id a) (Some p)) w else w)"

fun hideCrosshairs :: "env \<Rightarrow> axis list \<Rightarrow> world \<Rightarrow> world" where
  "hideCrosshairs E [] w = w"
| "hideCrosshairs E (a # as) w = hideCrosshairs E as (invoke E (AxisHideCrosshair (a_id a)) w)"

text \<open>
  The points of the tooltip: the hover points of a shared tooltip, else the hover point.
\<close>

definition tooltipPoints :: "world \<Rightarrow> pointArg option" where
  "tooltipPoints w =
     (if (case the_tooltip w of Some t \<Rightarrow> shared t | None \<Rightarrow> False)
      then map_option Multi (hoverPoints (the_chart w))
      else map_option Single (hoverPoint (the_chart w)))"

text \<open>
  \<open>Pointer.reset\<close>. The variables \<open>hoverSeries\<close>, \<open>hoverPoint\<close>, \<open>hoverPoints\<close>,
  \<open>tooltip\<close> and \<open>tooltipPoints\<close> are read once, at the start.
\<close>

definition reset :: "env \<Rightarrow> bool \<Rightarrow> real option \<Rightarrow> world \<Rightarrow> error + world" where
  "reset E allowMove delay w =
     (let hoverSeries' = hoverSeries (the_chart w);
          hoverPoint' = hoverPoint (the_chart w);
          hoverPoints' = hoverPoints (the_chart w);
          tooltip' = the_tooltip w
      in case (if allowMove
               then (case tooltipPoints w of
                       Some tp \<Rightarrow> stillInside w (splat tp)
                     | None \<Rightarrow> Inr True)
               else Inr False) of
           Inl err \<Rightarrow> Inl err
         | Inr True \<Rightarrow>
             (case (tooltip', tooltipPoints w) of
                (Some t, Some tp) \<Rightarrow>
                  if splat tp \<noteq> [] then
                    (case refresh E tp w of
                       Inl err \<Rightarrow> Inl err
                     | Inr w1 \<Rightarrow>
                         if (case the_tooltip w1 of Some t1 \<Rightarrow> shared t1 | None \<Rightarrow> False) \<and>
                            hoverPoints' \<noteq> None
                         then moveSharedPoints E (case hoverPoints' of Some ps \<Rightarrow> ps | None \<Rightarrow> []) w1
                         else (case hoverPoint' of
                                 Some hp \<Rightarrow>
                                   (let w2 = invoke E (PointSetState hp (p_state (points w1 hp)) True) w1
                                    in Inr (drawCrosshairsAt E hp (axes (the_chart w2)) w2))
                               | None \<Rightarrow> Inr w1))
                  else Inr w
              | _ \<Rightarrow> Inr w)
         | Inr False \<Rightarrow>
             (let w1 = (case hoverPoint' of Some hp \<Rightarrow> invoke E (PointOnMouseOut hp) w | None \<Rightarrow> w);
                  w2 = (case hoverPoints' of Some ps \<Rightarrow> setStates E None ps w1 | None \<Rightarrow> w1);
                  w3 = (case hoverSeries' of Some s \<Rightarrow> invoke E (SeriesOnMouseOut s) w2 | None \<Rightarrow> w2);
                  w4 = (if tooltip' \<noteq> None then hide E delay w3 else w3);
                  w5 = (if unDocMouseMove (the_pointer w4)
                        then w4\<lparr>the_pointer := (the_pointer w4)\<lparr>unDocMouseMove := False\<rparr>\<rparr>
                        else w4);
                  w6 = hideCrosshairs E (axes (the_chart w5)) w5
              in Inr (w6\<lparr>the_pointer := (the_pointer w6)\<lparr>hoverX := None\<rparr>,
                         the_chart := (the_chart w6)\<lparr>hoverPoints := None, hoverPoint := None\<rparr>\<rparr>)))"

section \<open>Hover state: runPointActions\<close>

definition seriesFilter :: "world \<Rightarrow> bool \<Rightarrow> sid \<Rightarrow> bool" where
  "seriesFilter w shared' s =
     (visible (allSeries w s) \<and> \<not> (\<not> shared' \<and> directTouch (allSeries w s)) \<and>
      (case enableMouseTracking (allSeries w s) of Some b \<Rightarrow> b | None \<Rightarrow> True))"

text \<open>The points with the \<open>x\<close> of the hover point, one for each series searched.\<close>

definition sharedPoints :: "env \<Rightarrow> world \<Rightarrow> pid \<Rightarrow> sid list \<Rightarrow> pid list" where
  "sharedPoints E w hp ss =
     List.map_filter
       (\<lambda>s. map_option (\<lambda>p. if isBoosting (the_chart w) then getPoint E s p else p)
              (find (\<lambda>p. p_x (points w p) = p_x (points w hp) \<and> \<not> isNull (points w p))
                    (s_points (allSeries w s))))
       ss"

definition getHoverData ::
  "env \<Rightarrow> world \<Rightarrow> pid option \<Rightarrow> sid option \<Rightarrow> sid list \<Rightarrow> bool \<Rightarrow> bool \<Rightarrow> event \<Rightarrow> error + hoverData" where
  "getHoverData E w existingHoverPoint existingHoverSeries series' isDirectTouch' shared' e =
     (let useExisting = (isDirectTouch' \<and> existingHoverPoint \<noteq> None);
          notSticky = (case existingHoverSeries of
                         Some s \<Rightarrow> \<not> stickyTracking (allSeries w s) | None \<Rightarrow> False);
          searchSeries = (if notSticky
                          then (case existingHoverSeries of Some s \<Rightarrow> [s] | None \<Rightarrow> [])
                          else filter (\<lambda>s. seriesFilter w shared' s \<and> stickyTracking (allSeries w s)) series')
      in case (if useExisting then Inr existingHoverPoint
               else findNearestKDPoint E w searchSeries shared' e) of
           Inl err \<Rightarrow> Inl err
         | Inr None \<Rightarrow> Inr \<lparr>hd_hoverPoint = None, hd_hoverSeries = None, hd_hoverPoints = []\<rparr>
         | Inr (Some hp) \<Rightarrow>
             (let hs = p_series (points w hp)
              in if shared' then
                   (case hs of
                      None \<Rightarrow> Inl TypeError
                    | Some s \<Rightarrow>
                        if \<not> noSharedTooltip (allSeries w s)
                        then Inr \<lparr>hd_hoverPoint = Some hp, hd_hoverSeries = hs,
                                  hd_hoverPoints =
                                    sharedPoints E w hp
                                      (filter (\<lambda>s'. seriesFilter w shared' s' \<and>
                                                    \<not> noSharedTooltip (allSeries w s')) series')\<rparr>
                        else Inr \<lparr>hd_hoverPoint = Some hp, hd_hoverSeries = hs, hd_hoverPoints = [hp]\<rparr>)
                 else Inr \<lparr>hd_hoverPoint = Some hp, hd_hoverSeries = hs, hd_hoverPoints = [hp]\<rparr>))"

text \<open>
  The reconciliation of \<open>runPointActions\<close>, in three parts. \<open>reconcileHead\<close> is the part
  before the check \<open>if (!hoverPoint.series) return\<close>: clear the state of the points that
  are no longer hovered, mouse over on a new hover series, the inactive state of the
  other series, the hover state of the points, and \<open>mouseOut\<close> on the old hover point.
\<close>

definition reconcileHead :: "env \<Rightarrow> pid list \<Rightarrow> sid option \<Rightarrow> world \<Rightarrow> error + world" where
  "reconcileHead E pts hs w =
     (let w1 = setStates E None
                 (filter (\<lambda>p. p \<notin> set pts)
                    (case hoverPoints (the_chart w) of Some ps \<Rightarrow> ps | None \<Rightarrow> [])) w
      in case (if hoverSeries (the_chart w1) \<noteq> hs
               then (case hs of None \<Rightarrow> Inl TypeError
                     | Some s \<Rightarrow> Inr (invoke E (SeriesOnMouseOver s) w1))
               else Inr w1) of
           Inl err \<Rightarrow> Inl err
         | Inr w2 \<Rightarrow>
             (case getActiveSeries w2 pts of
                Inl err \<Rightarrow> Inl err
              | Inr activeSeries \<Rightarrow>
                  (let w3 = setInactive E activeSeries (c_series (the_chart w2)) w2;
                       w4 = setStates E (Some ''hover'') pts w3
                   in Inr (case hoverPoint (the_chart w4) of
                             Some q \<Rightarrow> invoke E (PointFireEvent q ''mouseOut'') w4
                           | None \<Rightarrow> w4))))"

text \<open>
  \<open>reconcileCommit\<close> is the part after the check: \<open>mouseOver\<close> on the new hover point,
  the new \<open>hoverPoints\<close> and \<open>hoverPoint\<close> of the chart, and the refresh of the tooltip.
\<close>

definition reconcileCommit :: "env \<Rightarrow> bool \<Rightarrow> bool \<Rightarrow> pid \<Rightarrow> pid list \<Rightarrow> world \<Rightarrow> error + world" where
  "reconcileCommit E hasTooltip useSharedTooltip hp pts w =
     (let w1 = invoke E (PointFireEvent hp ''mouseOver'') w;
          w2 = w1\<lparr>the_chart := (the_chart w1)\<lparr>hoverPoints := Some pts, hoverPoint := Some hp\<rparr>\<rparr>
      in if hasTooltip
         then refresh E (if useSharedTooltip then Multi pts else Single hp) w2
         else Inr w2)"

text \<open>\<open>H.find(points, function (p) { return p.series[axis.coll] === axis; })\<close>\<close>

fun findOnAxis :: "world \<Rightarrow> axis \<Rightarrow> pid list \<Rightarrow> error + pid option" where
  "findOnAxis w a [] = Inr None"
| "findOnAxis w a (p # ps) =
     (case p_series (points w p) of
        None \<Rightarrow> Inl TypeError
      | Some s \<Rightarrow>
          if map_option a_id (case coll a of XAxis \<Rightarrow> s_xAxis (allSeries w s)
                              | YAxis \<Rightarrow> s_yAxis (allSeries w s)) = Some (a_id a)
          then Inr (Some p)
          else findOnAxis w a ps)"

fun drawAxisCrosshair :: "env \<Rightarrow> pid list \<Rightarrow> axis list \<Rightarrow> world \<Rightarrow> error + world" where
  "drawAxisCrosshair E pts [] w = Inr w"
| "drawAxisCrosshair E pts (a # as) w =
     (if (case crosshair a of None \<Rightarrow> True
          | Some c \<Rightarrow> (case snap c of Some b \<Rightarrow> b | None \<Rightarrow> True))
      then (case findOnAxis w a pts of
              Inl err \<Rightarrow> Inl err
            | Inr (Some p) \<Rightarrow>
                drawAxisCrosshair E pts as (invoke E (AxisDrawCrosshair (a_id a) (Some p)) w)
            | Inr None \<Rightarrow>
                drawAxisCrosshair E pts as (invoke E (AxisHideCrosshair (a_id a)) w))
      else drawAxisCrosshair E pts as (invoke E (AxisDrawCrosshair (a_id a) None) w))"

text \<open>
  The end of \<open>runPointActions\<close>: the document listener for mouse moves is bound once, and
  the crosshair of every axis is drawn or hidden.
\<close>

definition pointerTail :: "env \<Rightarrow> pid list \<Rightarrow> world \<Rightarrow> error + world" where
  "pointerTail E pts w =
     (let w1 = (if \<not> unDocMouseMove (the_pointer w)
                then w\<lparr>the_pointer := (the_pointer w)\<lparr>unDocMouseMove := True\<rparr>\<rparr> else w)
      in drawAxisCrosshair E pts (axes (the_chart w1)) w1)"

text \<open>
  The start of \<open>runPointActions\<close>: the tooltip, if it is enabled, and the call of
  \<open>getHoverData\<close> with the present hover point and hover series.
\<close>

definition enabledTooltip :: "world \<Rightarrow> tooltip option" where
  "enabledTooltip w =
     (case the_tooltip w of Some t \<Rightarrow> if enabled t then Some t else None | None \<Rightarrow> None)"

definition sharedTooltip :: "world \<Rightarrow> bool" where
  "sharedTooltip w = (case enabledTooltip w of Some t \<Rightarrow> shared t | None \<Rightarrow> False)"

definition tooltipHidden :: "world \<Rightarrow> bool" where
  "tooltipHidden w = (case enabledTooltip w of Some t \<Rightarrow> isHidden t | None \<Rightarrow> False)"

definition resolveHover :: "env \<Rightarrow> event \<Rightarrow> pid option \<Rightarrow> world \<Rightarrow> error + hoverData" where
  "resolveHover E e p w =
     (let ch = the_chart w;
          hoverPoint0 = (case p of Some q \<Rightarrow> Some q | None \<Rightarrow> hoverPoint ch);
          hoverSeries0 = (case hoverPoint0 of
                            Some q \<Rightarrow> (case p_series (points w q) of
                                          Some s \<Rightarrow> Some s | None \<Rightarrow> hoverSeries ch)
                          | None \<Rightarrow> hoverSeries ch);
          isDirectTouch' = (e_type e \<noteq> ''touchmove'' \<and>
                            (p \<noteq> None \<or>
                             ((case hoverSeries0 of Some s \<Rightarrow> directTouch (allSeries w s)
                               | None \<Rightarrow> False) \<and> isDirectTouch (the_pointer w))))
      in getHoverData E w hoverPoint0 hoverSeries0 (c_series ch) isDirectTouch' (sharedTooltip w) e)"

definition runPointActions :: "env \<Rightarrow> event \<Rightarrow> pid option \<Rightarrow> world \<Rightarrow> error + world" where
  "runPointActions E e p w =
     (case resolveHover E e p w of
        Inl err \<Rightarrow> Inl err
      | Inr hoverData' \<Rightarrow>
          (let pts = hd_hoverPoints hoverData';
               hs = hd_hoverSeries hoverData';
               followPointer = (case hs of Some s \<Rightarrow> s_followPointer (allSeries w s)
                                | None \<Rightarrow> False);
               useSharedTooltip = (sharedTooltip w \<and>
                                   (case hs of Some s \<Rightarrow> \<not> noSharedTooltip (allSeries w s)
                                    | None \<Rightarrow> False))
           in case hd_hoverPoint hoverData' of
                Some hp \<Rightarrow>
                  if Some hp \<noteq> hoverPoint (the_chart w) \<or> tooltipHidden w then
                    (case reconcileHead E pts hs w of
                       Inl err \<Rightarrow> Inl err
                     | Inr w5 \<Rightarrow>
                         if p_series (points w5 hp) = None then Inr w5
                         else (case reconcileCommit E (enabledTooltip w \<noteq> None) useSharedTooltip
                                      hp pts w5 of
                                 Inl err \<Rightarrow> Inl err
                               | Inr w8 \<Rightarrow> pointerTail E pts w8))
                  else if followPointer \<and> enabledTooltip w \<noteq> None \<and> \<not> tooltipHidden w
                  then pointerTail E pts
                         (invoke E TooltipUpdatePosition (invoke E TooltipGetAnchor w))
                  else pointerTail E pts w
              | None \<Rightarrow>
                  if followPointer \<and> enabledTooltip w \<noteq> None \<and> \<not> tooltipHidden w
                  then pointerTail E pts
                         (invoke E TooltipUpdatePosition (invoke E TooltipGetAnchor w))
                  else pointerTail E pts w))"

section \<open>The hover chart of the page\<close>

definition chartAt :: "globals \<Rightarrow> nat \<Rightarrow> world option" where
  "chartAt G i = (if i < length (charts G) then charts G ! i else None)"

text \<open>
  The test of \<open>onContainerMouseMove\<close>: no hover chart index, or no chart under it, or
  that chart's mouse is not down.
\<close>

definition mayClaimHover :: "globals \<Rightarrow> bool" where
  "mayClaimHover G =
     (case hoverChartIndex G of
        None \<Rightarrow> True
      | Some k \<Rightarrow>
          (case chartAt G k of
             None \<Rightarrow> True
           | Some w \<Rightarrow> (case mouseIsDown (the_chart w) of None \<Rightarrow> True | Some m \<Rightarrow> m = [])))"

text \<open>
  What \<open>onContainerMouseMove\<close> does in the chart of the pointer, after the hover chart
  index: normalize the event, mark it handled, drag while the mouse is down, and run the
  point actions inside the plot area or on a tracker.
\<close>

definition containerMouseMove :: "env \<Rightarrow> eid \<Rightarrow> world \<Rightarrow> error + world" where
  "containerMouseMove E e w =
     (case normalize_event e None w of
        Inl err \<Rightarrow> Inl err
      | Inr (e1, w1) \<Rightarrow>
          (let w2 = (if \<not> preventDefault (events w1 e1)
                     then snd (extend e1 (\<lambda>ev. ev\<lparr>returnValue := Some False\<rparr>) w1) else w1);
               w3 = (if mouseIsDown (the_chart w2) = Some ''mousedown''
                     then drag E (events w2 e1) w2 else w2);
               ev = events w3 e1
           in if (inClass (target ev) ''highcharts-tracker'' \<or>
                  (case (chartX ev, chartY ev) of
                     (Some cx, Some cy) \<Rightarrow>
                       isInsidePlot (the_chart w3) (cx - plotLeft (the_chart w3))
                         (cy - plotTop (the_chart w3)) False
                   | _ \<Rightarrow> False)) \<and> \<not> openMenu (the_chart w3)
              then runPointActions E ev None w3
              else Inr w3))"

text \<open>
  \<open>onContainerMouseMove\<close> of the pointer of the chart registered at \<open>i\<close> (no handler
  runs for a chart that is not registered).
\<close>

definition onContainerMouseMove :: "env \<Rightarrow> nat \<Rightarrow> eid \<Rightarrow> globals \<Rightarrow> error + globals" where
  "onContainerMouseMove E i e G =
     (case chartAt G i of
        None \<Rightarrow> Inr G
      | Some w \<Rightarrow>
          (let G1 = (if mayClaimHover G
                     then G\<lparr>hoverChartIndex := Some (index (the_chart w))\<rparr> else G)
           in case containerMouseMove E e w of
                Inl err \<Rightarrow> Inl err
              | Inr w' \<Rightarrow> Inr (G1\<lparr>charts := (charts G1)[i := Some w']\<rparr>)))"

section \<open>Notions used in the statements\<close>

text \<open>
  The points that the series searched hand to \<open>findNearestKDPoint\<close>, in the order of
  the series; the z-index and the series index of a candidate (0 where it has none);
  \<open>onTop w r p\<close>: \<open>r\<close> is drawn above \<open>p\<close>, or on the same level by a series that is
  not earlier.
\<close>

definition candidates :: "env \<Rightarrow> world \<Rightarrow> bool \<Rightarrow> event \<Rightarrow> sid list \<Rightarrow> pid list" where
  "candidates E w shared' e ss = List.map_filter (\<lambda>s. searchPoint E w s e (compareX w shared' s)) ss"

definition zOf :: "world \<Rightarrow> pid \<Rightarrow> real" where
  "zOf w p = (case p_series (points w p) of None \<Rightarrow> 0
              | Some s \<Rightarrow> (case groupZIndex w s of None \<Rightarrow> 0 | Some z \<Rightarrow> z))"

definition indexOf :: "world \<Rightarrow> pid \<Rightarrow> nat" where
  "indexOf w p = (case p_series (points w p) of None \<Rightarrow> 0 | Some s \<Rightarrow> s_index (allSeries w s))"

definition hasZIndex :: "world \<Rightarrow> pid \<Rightarrow> bool" where
  "hasZIndex w p = (case p_series (points w p) of None \<Rightarrow> False
              | Some s \<Rightarrow> groupZIndex w s \<noteq> None)"

definition onTop :: "world \<Rightarrow> pid \<Rightarrow> pid \<Rightarrow> bool" where
  "onTop w r p = (zOf w p < zOf w r \<or> (zOf w p = zOf w r \<and> indexOf w p \<le> indexOf w r))"

text \<open>
  Tooltip placement: \<open>noRoom\<close> says that neither side of the point has room for the box
  in a dimension; \<open>fits\<close> that a coordinate keeps the box inside the outer size;
  \<open>regular\<close> that the distance and the height offset are not negative, the point lies
  inside the outer size and the plot area leaves room for the box.
\<close>

definition noRoom :: "real \<Rightarrow> dimArgs \<Rightarrow> bool" where
  "noRoom dst a = (\<not> innerSize a < d_point a - dst \<and> \<not> d_point a + dst + innerSize a < outerSize a)"

definition coord :: "dimName \<Rightarrow> position \<Rightarrow> real option" where
  "coord d r = (case d of DimX \<Rightarrow> pos_x r | DimY \<Rightarrow> pos_y r)"

definition fits :: "dimArgs \<Rightarrow> real \<Rightarrow> bool" where
  "fits a v = (0 \<le> v \<and> v \<le> outerSize a - innerSize a)"

definition regular :: "real \<Rightarrow> real \<Rightarrow> dimArgs \<Rightarrow> bool" where
  "regular dst h a = (0 \<le> dst \<and> 0 \<le> h \<and> 0 \<le> d_point a \<and> d_point a \<le> outerSize a \<and>
      0 \<le> d_min a \<and> d_min a \<le> outerSize a - innerSize a \<and> innerSize a \<le> d_max a)"

definition origin :: position where
  "origin = \<lparr>pos_x = Some 0, pos_y = Some 0\<rparr>"


text \<open>
  Normalizing. \<open>chartOffset\<close> is the chart position that \<open>normalize\<close> subtracts: the
  one passed in, else the offset of the container. \<open>finite64 x\<close>: the double nearest to
  \<open>x\<close> is finite. \<open>finiteOffsets\<close>: the differences of the page position that
  \<open>normalize\<close> reads to that chart position are finite doubles, not \<open>Infinity\<close>.
  \<open>normalizedAt e cpo w px py\<close>: \<open>normalize\<close> returns the event \<open>e\<close> with \<open>chartX\<close> and
  \<open>chartY\<close> computed from the position (px, py).
\<close>

definition chartOffset :: "offsetObject option \<Rightarrow> world \<Rightarrow> offsetObject" where
  "chartOffset cpo w = (case cpo of Some c \<Rightarrow> c | None \<Rightarrow> containerOffset w)"

definition finite64 :: "real \<Rightarrow> bool" where
  "finite64 x = (\<bar>x\<bar> < 2 ^ 1024 - 2 ^ 970)"

definition finiteOffsets :: "event \<Rightarrow> offsetObject \<Rightarrow> bool" where
  "finiteOffsets ev cp =
     (case ePos ev of
        None \<Rightarrow> True
      | Some (px, py) \<Rightarrow> finite64 (px - o_left cp) \<and> finite64 (py - o_top cp))"

definition normalizedAt :: "eid \<Rightarrow> offsetObject option \<Rightarrow> world \<Rightarrow> real \<Rightarrow> real \<Rightarrow> bool" where
  "normalizedAt e cpo w px py =
     (\<exists>w'. normalize_event e cpo w = Inr (e, w') \<and>
        chartX (events w' e) = Some (Math_round (minus64 px (o_left (chartOffset cpo w)))) \<and>
        chartY (events w' e) = Some (Math_round (minus64 py (o_top (chartOffset cpo w)))))"

text \<open>
  Dragging: the distance of an event, clamped into the plot area, from the point where
  the mouse went down (\<open>None\<close> where a coordinate is missing); \<open>withinThreshold\<close>: that
  distance is not above 10; \<open>clickedInside\<close>: the mouse went down inside the plot area;
  \<open>zoomSelects\<close>: the condition under which \<open>drag\<close> makes a selection marker;
  \<open>sameButDragged\<close>: two worlds differ in \<open>hasDragged\<close> at most.
\<close>

definition dragDistance :: "chart \<Rightarrow> real option \<Rightarrow> real option \<Rightarrow> event \<Rightarrow> real option" where
  "dragDistance ch mx my e =
     (case (chartX e, chartY e, mx, my) of
        (Some cx, Some cy, Some mdx, Some mdy) \<Rightarrow>
          Some (sqrt ((mdx - clampTo (plotLeft ch) (plotWidth ch) cx)\<^sup>2 +
                      (mdy - clampTo (plotTop ch) (plotHeight ch) cy)\<^sup>2))
      | _ \<Rightarrow> None)"

definition displacement :: "world \<Rightarrow> event \<Rightarrow> real option" where
  "displacement w e =
     dragDistance (the_chart w) (mouseDownX (the_pointer w)) (mouseDownY (the_pointer w)) e"

definition withinThreshold :: "world \<Rightarrow> event \<Rightarrow> bool" where
  "withinThreshold w e = (case displacement w e of Some d \<Rightarrow> d \<le> 10 | None \<Rightarrow> True)"

definition clickedInside :: "world \<Rightarrow> bool" where
  "clickedInside w =
     (case (mouseDownX (the_pointer w), mouseDownY (the_pointer w)) of
        (Some mdx, Some mdy) \<Rightarrow>
          isInsidePlot (the_chart w) (mdx - plotLeft (the_chart w)) (mdy - plotTop (the_chart w)) False
      | _ \<Rightarrow> False)"

definition zoomSelects :: "world \<Rightarrow> event \<Rightarrow> bool" where
  "zoomSelects w e =
     (hasCartesianSeries (the_chart w) \<and> (zoomX (the_pointer w) \<or> zoomY (the_pointer w)) \<and>
      clickedInside w \<and> \<not> panKeyHeld (the_chart w) e)"

definition sameButDragged :: "world \<Rightarrow> world \<Rightarrow> bool" where
  "sameButDragged w w' = (\<exists>h. w' = w\<lparr>the_pointer := (the_pointer w)\<lparr>hasDragged := h\<rparr>\<rparr>)"

text \<open>
  Hover state. \<open>hoverKept\<close>: two worlds have the same hover point, hover points and
  hover series, and the same binding of the document listener. \<open>keepsHover\<close>: the
  collaborators leave these, the tooltip and its timers alone. \<open>follows P K w w'\<close>: \<open>w'\<close>
  comes after \<open>w\<close> by collaborator calls that all satisfy \<open>P\<close>, and \<open>K\<close> relates the two;
  \<open>orderly K E\<close>: \<open>K\<close> is reflexive, transitive and holds across every collaborator
  call. \<open>headCall\<close>: the calls made by \<open>runPointActions\<close> before it checks that the hover
  point is still alive. \<open>untouched\<close>: hover fields, tooltip and timers are the same,
  provided the collaborators keep them.
\<close>

definition hoverKept :: "world \<Rightarrow> world \<Rightarrow> bool" where
  "hoverKept w w' =
     (hoverPoint (the_chart w') = hoverPoint (the_chart w) \<and>
      hoverPoints (the_chart w') = hoverPoints (the_chart w) \<and>
      hoverSeries (the_chart w') = hoverSeries (the_chart w) \<and>
      unDocMouseMove (the_pointer w') = unDocMouseMove (the_pointer w))"

definition keepsHover :: "env \<Rightarrow> bool" where
  "keepsHover E =
     (\<forall>c w. hoverKept w (effect E c w) \<and> the_tooltip (effect E c w) = the_tooltip w \<and>
            pending (effect E c w) = pending w \<and> nextTimer (effect E c w) = nextTimer w)"

definition follows :: "(call \<Rightarrow> bool) \<Rightarrow> (world \<Rightarrow> world \<Rightarrow> bool) \<Rightarrow> world \<Rightarrow> world \<Rightarrow> bool" where
  "follows P K w w' = ((\<exists>cs. trace w' = trace w @ cs \<and> list_all P cs) \<and> K w w')"

definition orderly :: "(world \<Rightarrow> world \<Rightarrow> bool) \<Rightarrow> env \<Rightarrow> bool" where
  "orderly K E =
     ((\<forall>w. K w w) \<and> (\<forall>a b c. K a b \<and> K b c \<longrightarrow> K a c) \<and> (\<forall>c w. K w (invoke E c w)))"

fun headCall :: "call \<Rightarrow> bool" where
  "headCall (PointSetState p st mv) = True"
| "headCall (SeriesOnMouseOver s) = True"
| "headCall (SeriesSetState s st inh) = True"
| "headCall (PointFireEvent p ev) = (ev = ''mouseOut'')"
| "headCall c = False"

definition untouched :: "bool \<Rightarrow> world \<Rightarrow> world \<Rightarrow> bool" where
  "untouched b w w' =
     (b \<longrightarrow> hoverKept w w' \<and> the_tooltip w' = the_tooltip w \<and>
          pending w' = pending w \<and> nextTimer w' = nextTimer w)"

text \<open>
  Hide timers. \<open>timerInv\<close>: a chart without tooltip has no pending timer; else a
  disabled tooltip is hidden, and either no timer is pending or exactly one, which is the
  \<open>hideTimer\<close> of a tooltip that is not hidden. \<open>pickDelay\<close> is
  \<open>pick(delay, this.options.hideDelay, 500)\<close>. \<open>tooltipRun E w\<close>: the world \<open>w\<close> is
  reached from a chart whose tooltip is new (\<open>init\<close> sets \<open>isHidden = true\<close>, and no
  timer is pending) by calls of \<open>hide\<close>, calls of \<open>refresh\<close> that return, and timers
  that the browser runs.
\<close>

definition timerInv :: "world \<Rightarrow> bool" where
  "timerInv w =
     (case the_tooltip w of
        None \<Rightarrow> pending w = []
      | Some t \<Rightarrow>
          (\<not> enabled t \<longrightarrow> isHidden t) \<and>
          (pending w = [] \<or>
           (\<exists>j d. pending w = [(j, HideTask d)] \<and> hideTimer t = Some j \<and> \<not> isHidden t \<and>
                  j < nextTimer w)))"














section \<open>Example states\<close>

text \<open>
  A chart of 200 by 100 pixels whose plot area fills it, with one enabled tooltip, and
  an environment whose collaborators change nothing.
\<close>

definition series0 :: series where
  "series0 = \<lparr>s_index = 0, visible = True, directTouch = False, stickyTracking = True,
     noSharedTooltip = False, enableMouseTracking = None, findNearestPointBy = ''x'',
     inactiveOtherPoints = False, s_group = Some \<lparr>zIndex = Some 1\<rparr>, linkedParent = None,
     linkedSeries = [], navigatorSeries = None, isCartesian = True, s_xAxis = None,
     s_yAxis = None, s_points = [], s_followPointer = False, s_distance = None\<rparr>"

definition point0 :: point where
  "point0 = \<lparr>p_series = Some 0, p_state = None, plotX = Some 0, p_x = 0, isNull = False,
     p_dist = 0, p_distX = 0\<rparr>"

definition event0 :: event where
  "event0 = \<lparr>e_type = ''mousemove'', pageX = 0, pageY = 0, touches = None,
     changedTouches = [], chartX = None, chartY = None, preventDefault = True,
     returnValue = None, target = [], held = []\<rparr>"

definition chart0 :: chart where
  "chart0 = \<lparr>index = 0, c_series = [], axes = [], hoverPoint = None, hoverPoints = None,
     hoverSeries = None, mouseIsDown = None, cancelClick = False, c_mouseDownX = None,
     c_mouseDownY = None, openMenu = False, plotLeft = 0, plotTop = 0, plotWidth = 200,
     plotHeight = 100, chartWidth = 200, chartHeight = 100, inverted = False,
     hasCartesianSeries = True, isBoosting = False, panKey = None, panning = False\<rparr>"

definition pointer0 :: pointer where
  "pointer0 = \<lparr>chartPosition = None, unDocMouseMove = False, hoverX = None,
     isDirectTouch = False, zoomX = False, zoomY = False, zoomHor = False, zoomVert = False,
     selMarker = None, mouseDownX = None, mouseDownY = None, hasDragged = None\<rparr>"

definition tooltip0 :: tooltip where
  "tooltip0 = \<lparr>enabled = True, hideDelay = None, isHidden = True, hideTimer = None,
     shared = False, t_split = False, t_followPointer = False, len = 0, distance = 16,
     outside = False\<rparr>"

definition world0 :: world where
  "world0 = \<lparr>events = (\<lambda>e. event0), points = (\<lambda>p. point0), allSeries = (\<lambda>s. series0),
     the_chart = chart0, the_pointer = pointer0, the_tooltip = Some tooltip0,
     containerOffset = \<lparr>o_left = 0, o_top = 0\<rparr>, pending = [], nextTimer = 0, trace = []\<rparr>"

definition env0 :: env where
  "env0 = \<lparr>effect = (\<lambda>c w. w), searchPoint = (\<lambda>w s e b. None), getPoint = (\<lambda>s p. p),
     formatter = (\<lambda>w ps. Some ''text''), syncZero = True\<rparr>"

definition kdWorld :: world where
  "kdWorld = world0\<lparr>
     points := (\<lambda>p. if p = 0 then point0\<lparr>p_series := Some 0, p_dist := 5, p_distX := 0\<rparr>
                     else point0\<lparr>p_series := Some 1, p_dist := 5, p_distX := 3\<rparr>),
     allSeries := (\<lambda>s. if s = 0 then series0\<lparr>s_index := 0, s_group := Some \<lparr>zIndex = Some 1\<rparr>\<rparr>
                        else series0\<lparr>s_index := 1, s_group := Some \<lparr>zIndex = Some 2\<rparr>\<rparr>)\<rparr>"

definition kdEnv :: env where
  "kdEnv = env0\<lparr>searchPoint := (\<lambda>w s e b. Some s)\<rparr>"

definition document0 :: document where
  "document0 = \<lparr>clientWidth = 0, clientHeight = 0, bodyScrollHeight = 0, docScrollHeight = 0,
     bodyOffsetHeight = 0, docOffsetHeight = 0\<rparr>"

definition cornerPoint :: tooltipPoint where
  "cornerPoint = \<lparr>tp_plotX = 190, tp_plotY = 50, ttBelow = None, negative = None, tp_h = None\<rparr>"

text \<open>
  A mouse event at page position (10.625, 20.25), the same event after \<open>normalize\<close>
  with the chart at (3, 4), a touch event with that position as its only changed touch,
  and a touch event that has neither a touch nor a changed touch. \<open>sixTenths\<close> and
  \<open>oneTenth\<close> are the doubles that JavaScript writes as \<open>0.6\<close> and \<open>0.1\<close>, and
  \<open>tenthsWorld\<close> has a mouse event at (0.6, 20.25).
\<close>

definition mouseWorld :: world where
  "mouseWorld = world0\<lparr>events := (\<lambda>e. if e = 0 then event0\<lparr>pageX := 10.625, pageY := 20.25\<rparr> else event0)\<rparr>"

definition normalizedWorld :: world where
  "normalizedWorld = mouseWorld\<lparr>events := (events mouseWorld)
     (0 := event0\<lparr>pageX := 10.625, pageY := 20.25, chartX := Some 8, chartY := Some 16\<rparr>)\<rparr>"

definition touchWorld :: world where
  "touchWorld = world0\<lparr>events := (\<lambda>e. event0\<lparr>e_type := ''touchmove'', touches := Some [],
     changedTouches := [\<lparr>t_pageX = 10.625, t_pageY = 20.25\<rparr>]\<rparr>)\<rparr>"

definition noTouchWorld :: world where
  "noTouchWorld = world0\<lparr>events := (\<lambda>e. event0\<lparr>e_type := ''touchend'', pageX := 10.625,
     pageY := 20.25, touches := Some [], changedTouches := []\<rparr>)\<rparr>"

definition sixTenths :: real where
  "sixTenths = 5404319552844595 / 2 ^ 53"

definition oneTenth :: real where
  "oneTenth = 3602879701896397 / 2 ^ 55"

definition tenthsWorld :: world where
  "tenthsWorld = world0\<lparr>events := (\<lambda>e. event0\<lparr>pageX := sixTenths, pageY := 20.25\<rparr>)\<rparr>"

text \<open>
  A page with three charts. The mouse is down in chart 0; the events of every chart are
  mouse events at (500, 500), outside the plot area. In \<open>dragPage\<close> no chart is the
  hover chart yet (the mouse went down before any move), in \<open>ownPage\<close> chart 0 is.
\<close>

definition farWorld :: "nat \<Rightarrow> world" where
  "farWorld k = world0\<lparr>the_chart := chart0\<lparr>index := k\<rparr>,
     events := (\<lambda>e. event0\<lparr>pageX := 500, pageY := 500\<rparr>)\<rparr>"

definition dragWorld :: world where
  "dragWorld = (farWorld 0)\<lparr>the_chart := chart0\<lparr>index := 0, mouseIsDown := Some ''mousedown''\<rparr>\<rparr>"

definition dragPage :: globals where
  "dragPage = \<lparr>charts = [Some dragWorld, Some (farWorld 1), Some (farWorld 2)],
                hoverChartIndex = None\<rparr>"

definition ownPage :: globals where
  "ownPage = \<lparr>charts = [Some dragWorld, Some (farWorld 1), Some (farWorld 2)],
               hoverChartIndex = Some 0\<rparr>"

text \<open>
  A drag: the mouse goes down at (50, 50), moves to (55, 50) and then to (100, 50).
  \<open>zoomWorld\<close> zooms along x; \<open>pieWorld\<close> is the same chart without cartesian series.
\<close>

definition downEvent :: event where
  "downEvent = event0\<lparr>e_type := ''mousedown'', chartX := Some 50, chartY := Some 50\<rparr>"

definition nearEvent :: event where
  "nearEvent = event0\<lparr>chartX := Some 55, chartY := Some 50\<rparr>"

definition moveEvent :: event where
  "moveEvent = event0\<lparr>chartX := Some 100, chartY := Some 50\<rparr>"

definition zoomWorld :: world where
  "zoomWorld = world0\<lparr>the_pointer := pointer0\<lparr>zoomX := True, zoomHor := True\<rparr>\<rparr>"

definition pieWorld :: world where
  "pieWorld = zoomWorld\<lparr>the_chart := chart0\<lparr>hasCartesianSeries := False\<rparr>\<rparr>"

text \<open>
  A chart that hovers the point 0 of its series 0, with a visible tooltip and the
  document listener bound.
\<close>

definition hoverWorld :: world where
  "hoverWorld = world0\<lparr>
     the_chart := chart0\<lparr>c_series := [0], hoverPoint := Some 0, hoverPoints := Some [0],
                         hoverSeries := Some 0\<rparr>,
     the_pointer := pointer0\<lparr>unDocMouseMove := True\<rparr>,
     the_tooltip := Some (tooltip0\<lparr>isHidden := False\<rparr>)\<rparr>"

text \<open>
  An environment in which every series finds the point 1, and in which the collaborator
  call \<open>c0\<close> runs a handler that destroys the point 1 (its series is cleared).
\<close>

definition destroyOn :: "call \<Rightarrow> env" where
  "destroyOn c0 = env0\<lparr>
     searchPoint := (\<lambda>w s e b. Some 1),
     effect := (\<lambda>c w. if c = c0
                        then w\<lparr>points := (points w)(1 := (points w 1)\<lparr>p_series := None\<rparr>)\<rparr>
                        else w)\<rparr>"








section \<open>Double arithmetic\<close>

lemma roundHalfEven_of_int: "roundHalfEven (of_int n) = n"
  by (simp add: roundHalfEven_def)

text \<open>\<open>exponentOf\<close> is not above the binary logarithm.\<close>

lemma exponentOf_le:
  assumes "x \<noteq> 0"
  shows "2 powi (exponentOf x) \<le> \<bar>x\<bar>"
proof (cases "1 \<le> \<bar>x\<bar>")
  case True
  then have p: "0 < \<lfloor>\<bar>x\<bar>\<rfloor>" by linarith
  from bitlen_bounds[OF p] have "2 ^ nat (bitlen \<lfloor>\<bar>x\<bar>\<rfloor> - 1) \<le> \<lfloor>\<bar>x\<bar>\<rfloor>" by simp
  then have "(2::real) ^ nat (bitlen \<lfloor>\<bar>x\<bar>\<rfloor> - 1) \<le> of_int \<lfloor>\<bar>x\<bar>\<rfloor>"
    by (metis of_int_le_iff of_int_numeral of_int_power)
  also have "\<dots> \<le> \<bar>x\<bar>" by simp
  finally have "(2::real) ^ nat (bitlen \<lfloor>\<bar>x\<bar>\<rfloor> - 1) \<le> \<bar>x\<bar>" .
  moreover have "0 \<le> bitlen \<lfloor>\<bar>x\<bar>\<rfloor> - 1"
    using p by (simp add: bitlen_alt_def)
  ultimately show ?thesis using True by (simp add: exponentOf_def power_int_def)
next
  case False
  define y where "y = 1 / \<bar>x\<bar>"
  have y: "1 < y" using False assms by (simp add: y_def)
  define n where "n = \<lceil>y\<rceil> - 1"
  have n: "0 < n" using y unfolding n_def by linarith
  from bitlen_bounds[OF n] have "n < 2 ^ nat (bitlen n)" by simp
  then have "\<lceil>y\<rceil> \<le> 2 ^ nat (bitlen n)" by (simp add: n_def)
  then have "of_int \<lceil>y\<rceil> \<le> (2::real) ^ nat (bitlen n)"
    by (metis of_int_le_iff of_int_numeral of_int_power)
  moreover have "y \<le> of_int \<lceil>y\<rceil>" by simp
  ultimately have "y \<le> 2 ^ nat (bitlen n)" by linarith
  then have "1 / 2 ^ nat (bitlen n) \<le> \<bar>x\<bar>"
    using assms unfolding y_def by (simp add: field_simps)
  moreover have "0 < bitlen n"
    using n bitlen_eq_zero_iff[of n] bitlen_nonneg[of n] by linarith
  ultimately show ?thesis using False
    by (simp add: exponentOf_def power_int_def y_def n_def field_simps)
qed

text \<open>
  A number with at most 53 significant bits, and no bit below \<open>2 powi (- 1074)\<close>, is a
  double: rounding leaves it as it is.
\<close>

lemma binary64_exact:
  assumes m: "\<bar>m\<bar> < 2 ^ 53" and k: "- 1074 \<le> k"
  shows "binary64 (of_int m * 2 powi k) = of_int m * 2 powi k"
proof (cases "m = 0")
  case True
  then show ?thesis by (simp add: binary64_def)
next
  case False
  define x :: real where "x = of_int m * 2 powi k"
  have x0: "x \<noteq> 0" using False by (simp add: x_def)
  define e where "e = max (exponentOf x - 52) (- 1074)"
  have "2 powi (exponentOf x) \<le> \<bar>x\<bar>" by (rule exponentOf_le[OF x0])
  also have "\<bar>x\<bar> = of_int \<bar>m\<bar> * 2 powi k" by (simp add: x_def abs_mult)
  also have "\<dots> < 2 ^ 53 * 2 powi k"
  proof -
    have "(of_int \<bar>m\<bar> :: real) < 2 ^ 53"
      using m by (metis of_int_less_iff of_int_numeral of_int_power)
    then show ?thesis by (simp add: mult_strict_right_mono)
  qed
  also have "\<dots> = 2 powi (53 + k)" by (simp add: power_int_add)
  finally have "(2::real) powi (exponentOf x) < 2 powi (53 + k)" .
  then have "exponentOf x < 53 + k"
    using power_int_increasing[of "53 + k" "exponentOf x" "2::real"]
    by (cases "exponentOf x < 53 + k") auto
  then have ek: "e \<le> k" using k by (simp add: e_def)
  have "x / 2 powi e = of_int m * 2 powi (k - e)"
    by (simp add: x_def power_int_diff)
  also have "\<dots> = of_int (m * 2 ^ nat (k - e))"
    using ek by (simp add: power_int_def)
  finally have q: "x / 2 powi e = of_int (m * 2 ^ nat (k - e))" .
  have "binary64 x = of_int (roundHalfEven (x / 2 powi e)) * 2 powi e"
    using x0 by (simp add: binary64_def e_def Let_def)
  also have "\<dots> = of_int (m * 2 ^ nat (k - e)) * 2 powi e"
    unfolding q roundHalfEven_of_int ..
  also have "\<dots> = x / 2 powi e * 2 powi e" unfolding q ..
  also have "\<dots> = x" by simp
  finally show ?thesis unfolding x_def .
qed

lemma binary64_of_int: "\<bar>n\<bar> < 2 ^ 53 \<Longrightarrow> binary64 (of_int n) = of_int n"
  using binary64_exact[of n 0] by simp

lemma binary64_numeral: "numeral k < (2::int) ^ 53 \<Longrightarrow> binary64 (numeral k) = numeral k"
  using binary64_of_int[of "numeral k"] by simp

text \<open>
  Where the exact difference is a double, \<open>Math.round\<close> of the difference is the
  rounding of the exact difference; so it is for integer positions below \<open>2 ^ 52\<close>.
\<close>

lemma Math_round_exact:
  "binary64 (x - y) = x - y \<Longrightarrow> Math_round (minus64 x y) = of_int (round (x - y))"
  by (simp add: minus64_def Math_round_def round_def)

lemma Math_round_minus64_of_int:
  assumes "\<bar>a\<bar> < 2 ^ 52" "\<bar>b\<bar> < 2 ^ 52"
  shows "Math_round (minus64 (of_int a) (of_int b)) = of_int (a - b)"
proof -
  have "\<bar>a - b\<bar> < 2 ^ 53" using assms by simp
  from binary64_of_int[OF this] show ?thesis
    by (simp add: minus64_def Math_round_def)
qed

text \<open>
  The positions of the examples are doubles. The difference of the doubles 0.6 and 0.1
  is not a double: it lies halfway between two doubles, and the even one is 0.5.
\<close>

lemma binary64_examples:
  "binary64 (61 / 8) = 61 / 8" "binary64 (65 / 4) = 65 / 4"
  using binary64_exact[of 61 "- 3"] binary64_exact[of 65 "- 2"]
  by (simp_all add: power_int_minus)

lemma minus64_examples: "minus64 (85 / 8) 3 = 61 / 8" "minus64 (81 / 4) 4 = 65 / 4"
  by (simp_all add: minus64_def binary64_examples)

lemma bitlen_two: "bitlen 2 = 2"
  by (simp add: bitlen_alt_def)

lemma minus64_tenths: "minus64 sixTenths oneTenth = 1 / 2"
  by (simp add: sixTenths_def oneTenth_def minus64_def binary64_def exponentOf_def
      roundHalfEven_def Let_def bitlen_two power_int_minus)

lemma round_tenths: "round (sixTenths - oneTenth) = 0"
  by (simp add: sixTenths_def oneTenth_def round_def)

section \<open>Nearest-point tie-break\<close>

lemma onTop_refl: "onTop w p p" by (simp add: onTop_def)
lemma onTop_trans: "onTop w r q \<Longrightarrow> onTop w q p \<Longrightarrow> onTop w r p"
  by (auto simp: onTop_def)

lemma sort_cmp_tie:
  assumes "hasZIndex w c" "hasZIndex w pt"
    and "p_dist (points w c) = p_dist (points w pt)"
    and "sh \<longrightarrow> p_distX (points w c) = p_distX (points w pt)"
  shows "\<exists>v. sort_cmp w sh c pt = Inr (Some v) \<and> (v > 0 \<longleftrightarrow> onTop w pt c) \<and> (\<not> v > 0 \<longrightarrow> onTop w c pt)"
  using assms
  by (auto simp: sort_cmp_def hasZIndex_def onTop_def zOf_def indexOf_def Let_def split: option.splits)

lemma kdLoop_tie:
  assumes "\<forall>p\<in>set (c # candidates E w sh e ss). hasZIndex w p"
    and "\<forall>p\<in>set (c # candidates E w sh e ss). p_dist (points w p) = d"
    and "sh \<longrightarrow> (\<forall>p\<in>set (c # candidates E w sh e ss). p_distX (points w p) = dx)"
  shows "\<exists>r\<in>set (c # candidates E w sh e ss). kdLoop E w sh e ss (Some c) = Inr (Some r) \<and>
           (\<forall>p\<in>set (c # candidates E w sh e ss). onTop w r p)"
  using assms
proof (induction ss arbitrary: c)
  case Nil
  then show ?case by (simp add: candidates_def map_filter_simps onTop_refl)
next
  case (Cons s ss)
  show ?case
  proof (cases "searchPoint E w s e (compareX w sh s)")
    case None
    then have eq: "candidates E w sh e (s # ss) = candidates E w sh e ss"
      by (simp add: candidates_def map_filter_simps)
    from Cons.IH[of c] Cons.prems show ?thesis
      unfolding eq using None by simp
  next
    case (Some pt)
    then have eq: "candidates E w sh e (s # ss) = pt # candidates E w sh e ss"
      by (simp add: candidates_def map_filter_simps)
    have hc: "hasZIndex w c" and hpt: "hasZIndex w pt"
      using Cons.prems(1) unfolding eq by simp_all
    have dd: "p_dist (points w c) = p_dist (points w pt)"
      using Cons.prems(2) unfolding eq by simp
    have dx: "sh \<longrightarrow> p_distX (points w c) = p_distX (points w pt)"
      using Cons.prems(3) unfolding eq by simp
    from sort_cmp_tie[OF hc hpt dd dx] obtain v where
      v: "sort_cmp w sh c pt = Inr (Some v)" "v > 0 \<longleftrightarrow> onTop w pt c" "\<not> v > 0 \<longrightarrow> onTop w c pt"
      by blast
    show ?thesis
    proof (cases "v > 0")
      case True
      have "\<exists>r\<in>set (pt # candidates E w sh e ss). kdLoop E w sh e ss (Some pt) = Inr (Some r) \<and>
           (\<forall>p\<in>set (pt # candidates E w sh e ss). onTop w r p)"
        using Cons.prems unfolding eq by (intro Cons.IH) auto
      then obtain r where r: "r \<in> set (pt # candidates E w sh e ss)"
        "kdLoop E w sh e ss (Some pt) = Inr (Some r)"
        "\<forall>p\<in>set (pt # candidates E w sh e ss). onTop w r p" by blast
      have "onTop w r c" using r(3) v(2) True onTop_trans[of w r pt c] by auto
      with r show ?thesis unfolding eq using Some v True by auto
    next
      case False
      have "\<exists>r\<in>set (c # candidates E w sh e ss). kdLoop E w sh e ss (Some c) = Inr (Some r) \<and>
           (\<forall>p\<in>set (c # candidates E w sh e ss). onTop w r p)"
        using Cons.prems unfolding eq by (intro Cons.IH) auto
      then obtain r where r: "r \<in> set (c # candidates E w sh e ss)"
        "kdLoop E w sh e ss (Some c) = Inr (Some r)"
        "\<forall>p\<in>set (c # candidates E w sh e ss). onTop w r p" by blast
      have "onTop w r pt" using r(3) v(3) False onTop_trans[of w r c pt] by auto
      with r show ?thesis unfolding eq using Some v False by auto
    qed
  qed
qed


lemma kdLoop_start:
  assumes "candidates E w sh e ss \<noteq> []"
    and "\<forall>p\<in>set (candidates E w sh e ss). hasZIndex w p"
    and "\<forall>p\<in>set (candidates E w sh e ss). p_dist (points w p) = d"
    and "sh \<longrightarrow> (\<forall>p\<in>set (candidates E w sh e ss). p_distX (points w p) = dx)"
  shows "\<exists>r\<in>set (candidates E w sh e ss). kdLoop E w sh e ss None = Inr (Some r) \<and>
           (\<forall>p\<in>set (candidates E w sh e ss). onTop w r p)"
  using assms
proof (induction ss)
  case Nil
  then show ?case by (simp add: candidates_def map_filter_simps)
next
  case (Cons s ss)
  show ?case
  proof (cases "searchPoint E w s e (compareX w sh s)")
    case None
    then have eq: "candidates E w sh e (s # ss) = candidates E w sh e ss"
      by (simp add: candidates_def map_filter_simps)
    from Cons.IH Cons.prems show ?thesis
      unfolding eq using None by simp
  next
    case (Some pt)
    then have eq: "candidates E w sh e (s # ss) = pt # candidates E w sh e ss"
      by (simp add: candidates_def map_filter_simps)
    have "\<exists>r\<in>set (pt # candidates E w sh e ss). kdLoop E w sh e ss (Some pt) = Inr (Some r) \<and>
           (\<forall>p\<in>set (pt # candidates E w sh e ss). onTop w r p)"
      using Cons.prems(2,3,4) unfolding eq by (intro kdLoop_tie) auto
    then show ?thesis unfolding eq using Some by simp
  qed
qed

text \<open>
  Claim C1, as amended. Let the candidates all have a series whose group has a z-index,
  and the same \<open>dist\<close>; in shared mode let them also have the same \<open>distX\<close> (there the
  x-distance is compared first). Then \<open>findNearestKDPoint\<close> returns one of them, and
  no candidate has a higher z-index, nor the same z-index with a higher series index.
  The function is a function of its arguments: the same input gives the same point.
\<close>

theorem findNearestKDPoint_tie_break:
  assumes "candidates E w sh e ss \<noteq> []"
    and "\<forall>p\<in>set (candidates E w sh e ss). hasZIndex w p"
    and "\<forall>p\<in>set (candidates E w sh e ss). \<forall>q\<in>set (candidates E w sh e ss).
           p_dist (points w p) = p_dist (points w q)"
    and "sh \<longrightarrow> (\<forall>p\<in>set (candidates E w sh e ss). \<forall>q\<in>set (candidates E w sh e ss).
           p_distX (points w p) = p_distX (points w q))"
  shows "\<exists>r\<in>set (candidates E w sh e ss).
           findNearestKDPoint E w ss sh e = Inr (Some r) \<and>
           (\<forall>p\<in>set (candidates E w sh e ss). onTop w r p)"
proof -
  obtain c where c: "c \<in> set (candidates E w sh e ss)"
    using assms(1) by (cases "candidates E w sh e ss") auto
  have d: "\<forall>p\<in>set (candidates E w sh e ss). p_dist (points w p) = p_dist (points w c)"
    using assms(3) c by blast
  have dx: "sh \<longrightarrow> (\<forall>p\<in>set (candidates E w sh e ss). p_distX (points w p) = p_distX (points w c))"
    using assms(4) c by blast
  show ?thesis
    unfolding findNearestKDPoint_def
    by (rule kdLoop_start[OF assms(1) assms(2) d dx])
qed

lemmas kd_fixture = kdWorld_def kdEnv_def world0_def env0_def point0_def series0_def
  candidates_def map_filter_simps compareX_def

text \<open>
  Claim C1 as stated fails for a shared tooltip: two candidates with the same \<open>dist\<close>
  5, the first at x-distance 0 in a series of z-index 1, the second at x-distance 3 in a
  series of z-index 2. The first is returned.
\<close>

theorem findNearestKDPoint_shared_counterexample:
  "candidates kdEnv kdWorld True event0 [0, 1] = [0, 1] \<and>
   p_dist (points kdWorld 0) = p_dist (points kdWorld 1) \<and>
   groupZIndex kdWorld 0 = Some 1 \<and> groupZIndex kdWorld 1 = Some 2 \<and>
   findNearestKDPoint kdEnv kdWorld [0, 1] True event0 = Inr (Some 0)"
  by (simp add: kd_fixture findNearestKDPoint_def groupZIndex_def sort_cmp_def)

text \<open>The same two candidates without a shared tooltip: the series on top wins.\<close>

theorem findNearestKDPoint_tie_break_witness:
  "candidates kdEnv kdWorld False event0 [0, 1] = [0, 1] \<and>
   hasZIndex kdWorld 0 \<and> hasZIndex kdWorld 1 \<and>
   p_dist (points kdWorld 0) = p_dist (points kdWorld 1) \<and>
   findNearestKDPoint kdEnv kdWorld [0, 1] False event0 = Inr (Some 1) \<and>
   onTop kdWorld 1 0"
proof -
  have c: "candidates kdEnv kdWorld False event0 [0, 1] = [0, 1]"
    by (simp add: kd_fixture)
  have z: "hasZIndex kdWorld 0 \<and> hasZIndex kdWorld 1"
    by (simp add: hasZIndex_def groupZIndex_def kd_fixture)
  have d: "p_dist (points kdWorld 0) = p_dist (points kdWorld 1)"
    by (simp add: kd_fixture)
  have "\<exists>r\<in>set (candidates kdEnv kdWorld False event0 [0, 1]).
           findNearestKDPoint kdEnv kdWorld [0, 1] False event0 = Inr (Some r) \<and>
           (\<forall>p\<in>set (candidates kdEnv kdWorld False event0 [0, 1]). onTop kdWorld r p)"
    by (rule findNearestKDPoint_tie_break) (use c z d in auto)
  moreover have "\<not> onTop kdWorld 0 1"
    by (simp add: onTop_def zOf_def indexOf_def groupZIndex_def kd_fixture)
  ultimately show ?thesis using c z d by auto
qed

section \<open>Placement with one swap\<close>

lemma firstDimension_None: "firstDimension dst h pf a r = None \<longleftrightarrow> noRoom dst a"
  by (auto simp: firstDimension_def noRoom_def Let_def)

lemma coord_setRet: "coord d (setRet d v r) = Some v"
  by (cases d) (simp_all add: coord_def setRet_def)

lemma coord_setRet_other: "d \<noteq> d' \<Longrightarrow> coord d (setRet d' v r) = coord d r"
  by (cases d; cases d') (simp_all add: coord_def setRet_def)

lemma firstDimension_fits:
  assumes "firstDimension dst h pf a r = Some r'" "regular dst h a"
  shows "\<exists>c. r' = setRet (d_dim a) c r \<and> fits a c"
  using assms
  by (auto simp: firstDimension_def regular_def fits_def Let_def split: if_splits)

lemma secondDimension_fits:
  assumes "secondDimension dst a r = Some r'" "innerSize a + 2 \<le> outerSize a"
  shows "\<exists>c. r' = setRet (d_dim a) c r \<and> fits a c"
  using assms
  by (auto simp: secondDimension_def fits_def split: if_splits)

lemma run_noRoom:
  assumes "noRoom dst (first st)" "swapped st \<noteq> Some True"
  shows "run dst h pf st =
     (case firstDimension dst h pf (second st) (ret st) of
        None \<Rightarrow> (swap (Some True) st)\<lparr>ret := \<lparr>pos_x = Some 0, pos_y = Some 0\<rparr>\<rparr>
      | Some r1 \<Rightarrow> (case secondDimension dst (first st) r1 of
                     None \<Rightarrow> (swap (Some True) st)\<lparr>ret := r1\<rparr>
                   | Some r2 \<Rightarrow> (swap (Some True) st)\<lparr>ret := r2\<rparr>))"
proof -
  have f: "firstDimension dst h pf (first st) (ret st) = None"
    using assms(1) by (simp add: firstDimension_None)
  have 1: "run dst h pf st = run dst h pf (swap (Some True) st)"
    by (subst run.simps) (simp add: f assms(2))
  show ?thesis
    unfolding 1
    by (subst run.simps) (simp add: swap_def split: option.splits)
qed


lemma start_swapped:
  "swapped (getPositionStart doc ch ptr t bw bh pt) = None"
  by (simp add: getPositionStart_def swap_def Let_def)

lemma start_ret:
  "ret (getPositionStart doc ch ptr t bw bh pt) = \<lparr>pos_x = None, pos_y = None\<rparr>"
  by (simp add: getPositionStart_def swap_def Let_def)

lemma start_dims:
  "d_dim (first (getPositionStart doc ch ptr t bw bh pt)) \<noteq>
   d_dim (second (getPositionStart doc ch ptr t bw bh pt))"
  by (simp add: getPositionStart_def swap_def Let_def)

lemma coord_empty: "coord d \<lparr>pos_x = None, pos_y = None\<rparr> = None"
  by (cases d) (simp_all add: coord_def)

text \<open>
  Claim C2, as amended. Let neither side of the point have room for the box in the
  primary dimension (the first after the optional \<open>swap()\<close> for inverted charts and
  shared tooltips). Then \<open>getPosition\<close> swaps the dimensions once more and no further.
  If the other dimension has no room either, the result is the origin. Otherwise the
  coordinate of the other dimension is set and keeps the box inside the outer size, for
  a regular placement; and the coordinate of the primary dimension, where it is set,
  keeps the box inside the outer size when the box is at least two pixels smaller.
\<close>

theorem getPosition_swaps_once:
  assumes pos: "outside t \<longrightarrow> chartPosition ptr \<noteq> None"
    and nr: "noRoom (distance t) (first (getPositionStart doc ch ptr t bw bh pt))"
  shows "getPosition doc ch ptr t bw bh pt = Inr (ret (getPositionRun doc ch ptr t bw bh pt)) \<and>
     swapCount (getPositionRun doc ch ptr t bw bh pt) =
       Suc (swapCount (getPositionStart doc ch ptr t bw bh pt)) \<and>
     (noRoom (distance t) (second (getPositionStart doc ch ptr t bw bh pt)) \<longrightarrow>
        ret (getPositionRun doc ch ptr t bw bh pt) = origin) \<and>
     (\<not> noRoom (distance t) (second (getPositionStart doc ch ptr t bw bh pt)) \<and>
      regular (distance t) (heightOffset ch pt) (second (getPositionStart doc ch ptr t bw bh pt)) \<longrightarrow>
        (\<exists>c. coord (d_dim (second (getPositionStart doc ch ptr t bw bh pt)))
                (ret (getPositionRun doc ch ptr t bw bh pt)) = Some c \<and>
             fits (second (getPositionStart doc ch ptr t bw bh pt)) c)) \<and>
     (\<not> noRoom (distance t) (second (getPositionStart doc ch ptr t bw bh pt)) \<and>
      innerSize (first (getPositionStart doc ch ptr t bw bh pt)) + 2
        \<le> outerSize (first (getPositionStart doc ch ptr t bw bh pt)) \<longrightarrow>
        (\<forall>v. coord (d_dim (first (getPositionStart doc ch ptr t bw bh pt)))
                (ret (getPositionRun doc ch ptr t bw bh pt)) = Some v \<longrightarrow>
             fits (first (getPositionStart doc ch ptr t bw bh pt)) v))"
proof -
  define st where "st = getPositionStart doc ch ptr t bw bh pt"
  define dst where "dst = distance t"
  define h where "h = heightOffset ch pt"
  define pf where "pf = preferFarSide ch t pt"
  have sw: "swapped st \<noteq> Some True" by (simp add: st_def start_swapped)
  have r0: "ret st = \<lparr>pos_x = None, pos_y = None\<rparr>" by (simp add: st_def start_ret)
  have dd: "d_dim (first st) \<noteq> d_dim (second st)" by (simp add: st_def start_dims)
  have nr': "noRoom dst (first st)" using nr by (simp add: st_def dst_def)
  have R: "getPositionRun doc ch ptr t bw bh pt = run dst h pf st"
    by (simp add: getPositionRun_def st_def dst_def h_def pf_def)
  note run = run_noRoom[OF nr' sw, of h pf]
  have 1: "getPosition doc ch ptr t bw bh pt = Inr (ret (run dst h pf st))"
    using pos by (auto simp: getPosition_def R)
  have 2: "swapCount (run dst h pf st) = Suc (swapCount st)"
    unfolding run by (simp add: swap_def split: option.splits)
  have 3: "noRoom dst (second st) \<longrightarrow> ret (run dst h pf st) = origin"
  proof
    assume "noRoom dst (second st)"
    then have "firstDimension dst h pf (second st) (ret st) = None"
      by (simp add: firstDimension_None)
    then show "ret (run dst h pf st) = origin"
      unfolding run by (simp add: origin_def)
  qed
  have 4: "\<exists>c. coord (d_dim (second st)) (ret (run dst h pf st)) = Some c \<and> fits (second st) c"
    if a: "\<not> noRoom dst (second st)" and b: "regular dst h (second st)"
  proof -
    from a obtain r1 where r1: "firstDimension dst h pf (second st) (ret st) = Some r1"
      using firstDimension_None[of dst h pf "second st" "ret st"] by (cases "firstDimension dst h pf (second st) (ret st)") auto
    from firstDimension_fits[OF r1 b] obtain c where
      c: "r1 = setRet (d_dim (second st)) c (ret st)" "fits (second st) c" by blast
    show ?thesis
    proof (cases "secondDimension dst (first st) r1")
      case None
      then show ?thesis unfolding run using r1 c by (simp add: coord_setRet)
    next
      case (Some r2)
      then obtain v where "r2 = setRet (d_dim (first st)) v r1"
        by (auto simp: secondDimension_def split: if_splits)
      then show ?thesis unfolding run using r1 c Some dd
        by (simp add: coord_setRet coord_setRet_other[OF dd[symmetric]])
    qed
  qed
  have 5: "\<forall>v. coord (d_dim (first st)) (ret (run dst h pf st)) = Some v \<longrightarrow> fits (first st) v"
    if a: "\<not> noRoom dst (second st)" and b: "innerSize (first st) + 2 \<le> outerSize (first st)"
  proof -
    from a obtain r1 where r1: "firstDimension dst h pf (second st) (ret st) = Some r1"
      using firstDimension_None[of dst h pf "second st" "ret st"] by (cases "firstDimension dst h pf (second st) (ret st)") auto
    then obtain c where c: "r1 = setRet (d_dim (second st)) c (ret st)"
      by (auto simp: firstDimension_def Let_def split: if_splits)
    have e: "coord (d_dim (first st)) r1 = None"
      unfolding c using dd by (simp add: coord_setRet_other r0 coord_empty)
    show ?thesis
    proof (cases "secondDimension dst (first st) r1")
      case None
      then show ?thesis unfolding run using r1 e by simp
    next
      case (Some r2)
      from secondDimension_fits[OF Some b] obtain v where
        "r2 = setRet (d_dim (first st)) v r1" "fits (first st) v" by blast
      then show ?thesis unfolding run using r1 Some by (simp add: coord_setRet)
    qed
  qed
  show ?thesis
    using 1 2 3 4 5 unfolding R st_def[symmetric] dst_def[symmetric] h_def[symmetric] by blast
qed

lemmas placement_fixture = getPosition_def getPositionRun_def getPositionStart_def chart0_def
  pointer0_def tooltip0_def document0_def heightOffset_def preferFarSide_def run.simps
  firstDimension_def secondDimension_def swap_def setRet_def Let_def

text \<open>
  Claim C2 as stated fails: a box of 50 by 80 in a chart of 200 by 100, the point at
  (190, 90) and a distance of 16. Neither above nor below is there room; after the swap
  the box goes left of the point, at x = 124, and the point is too close to the lower
  edge for the other dimension: no y is returned (\<open>updatePosition\<close> then reads
  \<open>pos.y || 0\<close>).
\<close>

theorem getPosition_bounds_counterexample:
  "firstDimension 16 0 False
      \<lparr>d_dim = DimY, outerSize = 100, innerSize = 80, d_point = 90, d_min = 0, d_max = 100\<rparr>
      \<lparr>pos_x = None, pos_y = None\<rparr> = None \<and>
   getPosition document0 chart0 pointer0 tooltip0 50 80
      \<lparr>tp_plotX = 190, tp_plotY = 90, ttBelow = None, negative = None, tp_h = None\<rparr>
    = Inr \<lparr>pos_x = Some 124, pos_y = None\<rparr>"
  by (simp add: placement_fixture)

text \<open>The same box with the point at (190, 50): one swap, and the box at (124, 10).\<close>

theorem getPosition_swaps_once_witness:
  "noRoom (distance tooltip0) (first (getPositionStart document0 chart0 pointer0 tooltip0 50 80 cornerPoint)) \<and>
   \<not> outside tooltip0 \<and>
   getPosition document0 chart0 pointer0 tooltip0 50 80 cornerPoint
     = Inr \<lparr>pos_x = Some 124, pos_y = Some 10\<rparr> \<and>
   swapCount (getPositionRun document0 chart0 pointer0 tooltip0 50 80 cornerPoint) = 1 \<and>
   fits (second (getPositionStart document0 chart0 pointer0 tooltip0 50 80 cornerPoint)) 124 \<and>
   fits (first (getPositionStart document0 chart0 pointer0 tooltip0 50 80 cornerPoint)) 10"
proof -
  have o: "outside tooltip0 \<longrightarrow> chartPosition pointer0 \<noteq> None"
    by (simp add: tooltip0_def)
  have n: "noRoom (distance tooltip0)
             (first (getPositionStart document0 chart0 pointer0 tooltip0 50 80 cornerPoint))"
    by (simp add: noRoom_def cornerPoint_def placement_fixture)
  have v: "ret (getPositionRun document0 chart0 pointer0 tooltip0 50 80 cornerPoint)
             = \<lparr>pos_x = Some 124, pos_y = Some 10\<rparr>"
    by (simp add: cornerPoint_def placement_fixture)
  have f: "fits (second (getPositionStart document0 chart0 pointer0 tooltip0 50 80 cornerPoint)) 124 \<and>
   fits (first (getPositionStart document0 chart0 pointer0 tooltip0 50 80 cornerPoint)) 10"
    by (simp add: fits_def cornerPoint_def placement_fixture)
  from getPosition_swaps_once[OF o n] v f n show ?thesis
    by (simp add: tooltip0_def getPositionStart_def chart0_def Let_def)
qed
section \<open>Normalized coordinates\<close>

text \<open>
  Claim C4, as amended. Let the differences of the page position that is read to the
  chart offset (ox, oy) be finite doubles; the offset is the one passed in, or else the
  offset of the container. The position (px, py) is that of the event itself when the
  event has no \<open>touches\<close>, that of the first touch when \<open>touches\<close> is not empty, and that
  of the first changed touch when \<open>touches\<close> is empty. Then \<open>normalize\<close> returns the
  event with \<open>chartX = Math.round(px - ox)\<close> and \<open>chartY = Math.round(py - oy)\<close>, where
  \<open>-\<close> is the subtraction of doubles. When \<open>touches\<close> is empty and there is no changed
  touch, \<open>normalize\<close> throws a \<open>TypeError\<close>: the event is not treated as a mouse event.
\<close>

theorem normalize_event_round:
  assumes "finiteOffsets (events w e) (chartOffset cpo w)"
  shows "(touches (events w e) = None \<longrightarrow>
            normalizedAt e cpo w (pageX (events w e)) (pageY (events w e))) \<and>
         (\<forall>t ts. touches (events w e) = Some (t # ts) \<longrightarrow>
            normalizedAt e cpo w (t_pageX t) (t_pageY t)) \<and>
         (\<forall>c cs. touches (events w e) = Some [] \<and> changedTouches (events w e) = c # cs \<longrightarrow>
            normalizedAt e cpo w (t_pageX c) (t_pageY c)) \<and>
         (touches (events w e) = Some [] \<and> changedTouches (events w e) = [] \<longrightarrow>
            normalize_event e cpo w = Inl TypeError)"
  by (auto simp: normalizedAt_def chartOffset_def normalize_event_def extend_def ePos_def Let_def
      split: option.splits)

text \<open>
  Claim C4 as stated fails: the touch event 0 has an empty list of touches and no changed
  touch, and its own page position is (10.625, 20.25). With the chart at (3, 4) it is not
  normalized from that position as a mouse event would be: \<open>normalize\<close> throws.
\<close>

theorem normalize_event_no_touch_counterexample:
  "touches (events noTouchWorld 0) = Some [] \<and> changedTouches (events noTouchWorld 0) = [] \<and>
   pageX (events noTouchWorld 0) = 10.625 \<and> pageY (events noTouchWorld 0) = 20.25 \<and>
   normalize_event 0 (Some \<lparr>o_left = 3, o_top = 4\<rparr>) noTouchWorld = Inl TypeError \<and>
   \<not> normalizedAt 0 (Some \<lparr>o_left = 3, o_top = 4\<rparr>) noTouchWorld 10.625 20.25"
  by (simp add: normalizedAt_def normalize_event_def ePos_def Let_def noTouchWorld_def
      world0_def event0_def)

text \<open>
  A mouse event at (0.6, 20.25) with the chart at (0.1, 4): the double difference of 0.6
  and 0.1 is 0.5, so \<open>chartX\<close> is 1, where the exact difference is rounded to 0.
\<close>

theorem normalize_event_round_witness:
  "finiteOffsets (events tenthsWorld 0)
     (chartOffset (Some \<lparr>o_left = oneTenth, o_top = 4\<rparr>) tenthsWorld) \<and>
   touches (events tenthsWorld 0) = None \<and>
   (\<exists>w'. normalize_event 0 (Some \<lparr>o_left = oneTenth, o_top = 4\<rparr>) tenthsWorld = Inr (0, w') \<and>
      chartX (events w' 0) = Some 1 \<and> chartY (events w' 0) = Some 16) \<and>
   round (sixTenths - oneTenth) = 0"
proof -
  have f: "finiteOffsets (events tenthsWorld 0)
     (chartOffset (Some \<lparr>o_left = oneTenth, o_top = 4\<rparr>) tenthsWorld)"
    by (simp add: finiteOffsets_def ePos_def finite64_def chartOffset_def tenthsWorld_def
        world0_def event0_def sixTenths_def oneTenth_def)
  have t: "touches (events tenthsWorld 0) = None"
    and p: "pageX (events tenthsWorld 0) = sixTenths" "pageY (events tenthsWorld 0) = 20.25"
    by (simp_all add: tenthsWorld_def world0_def event0_def)
  have "normalizedAt 0 (Some \<lparr>o_left = oneTenth, o_top = 4\<rparr>) tenthsWorld
          (pageX (events tenthsWorld 0)) (pageY (events tenthsWorld 0))"
    using normalize_event_round[OF f] t by simp
  then have "\<exists>w'. normalize_event 0 (Some \<lparr>o_left = oneTenth, o_top = 4\<rparr>) tenthsWorld = Inr (0, w') \<and>
      chartX (events w' 0) = Some 1 \<and> chartY (events w' 0) = Some 16"
    unfolding p
    by (simp add: normalizedAt_def chartOffset_def minus64_tenths minus64_examples Math_round_def)
  with f t round_tenths show ?thesis by simp
qed

text \<open>
  Claim C9, as amended. \<open>normalize\<close> returns the event object it was given, not a new
  one: it writes \<open>chartX\<close> and \<open>chartY\<close> into that object, keeps its other properties,
  and leaves every other event object as it was.
\<close>

theorem normalize_event_in_place:
  assumes "normalize_event e cpo w = Inr (e', w')"
  shows "e' = e \<and> (\<forall>e''. e'' \<noteq> e \<longrightarrow> events w' e'' = events w e'') \<and>
     events w' e = (events w e)\<lparr>chartX := chartX (events w' e), chartY := chartY (events w' e)\<rparr> \<and>
     chartX (events w' e) \<noteq> None \<and> chartY (events w' e) \<noteq> None"
  using assms
  by (auto simp: normalize_event_def extend_def Let_def split: option.splits)

text \<open>
  Claim C9 as stated fails: the object returned for the mouse event 0 is the object 0
  itself, which had no \<open>chartX\<close> before the call and has \<open>chartX = 8\<close> after it.
\<close>

theorem normalize_event_fresh_counterexample:
  "normalize_event 0 (Some \<lparr>o_left = 3, o_top = 4\<rparr>) mouseWorld = Inr (0, normalizedWorld) \<and>
   chartX (events mouseWorld 0) = None \<and> chartX (events normalizedWorld 0) = Some 8"
  by (simp add: normalize_event_def extend_def ePos_def Let_def mouseWorld_def normalizedWorld_def
      world0_def event0_def minus64_def Math_round_def binary64_examples)

text \<open>The mouse event 0 is extended in place; the event 1 is untouched.\<close>

theorem normalize_event_in_place_witness:
  "normalize_event 0 (Some \<lparr>o_left = 3, o_top = 4\<rparr>) mouseWorld = Inr (0, normalizedWorld) \<and>
   events normalizedWorld 1 = events mouseWorld 1 \<and>
   events normalizedWorld 0 = (events mouseWorld 0)\<lparr>chartX := Some 8, chartY := Some 16\<rparr>"
proof -
  have n: "normalize_event 0 (Some \<lparr>o_left = 3, o_top = 4\<rparr>) mouseWorld = Inr (0, normalizedWorld)"
    by (simp add: normalize_event_def extend_def ePos_def Let_def mouseWorld_def normalizedWorld_def
      world0_def event0_def minus64_def Math_round_def binary64_examples)
  have c: "chartX (events normalizedWorld 0) = Some 8" "chartY (events normalizedWorld 0) = Some 16"
    by (simp_all add: normalizedWorld_def)
  from normalize_event_in_place[OF n] n c show ?thesis by simp
qed

section \<open>The hover chart during a drag\<close>

text \<open>
  Claim C10, as amended. A container mouse move that returns sets the hover chart index
  to the index of its own chart exactly when there is no hover chart index, or no chart
  registered under it, or the mouse of that chart is not down; otherwise the index stays.
  So the index is not reassigned while the mouse of the hover chart itself is down. The
  mouse-down state of the other charts is not looked at.
\<close>

theorem onContainerMouseMove_hover_index:
  assumes "onContainerMouseMove E i e G = Inr G'" and "chartAt G i = Some w"
  shows "hoverChartIndex G' =
           (if mayClaimHover G then Some (index (the_chart w)) else hoverChartIndex G) \<and>
         (\<forall>k wk m. hoverChartIndex G = Some k \<and> chartAt G k = Some wk \<and>
             mouseIsDown (the_chart wk) = Some m \<and> m \<noteq> [] \<longrightarrow> hoverChartIndex G' = Some k) \<and>
         (mayClaimHover G \<longleftrightarrow>
            hoverChartIndex G = None \<or>
            (\<exists>k. hoverChartIndex G = Some k \<and>
               (chartAt G k = None \<or>
                (\<exists>wk. chartAt G k = Some wk \<and>
                   (mouseIsDown (the_chart wk) = None \<or> mouseIsDown (the_chart wk) = Some [])))))"
  using assms
  by (auto simp: onContainerMouseMove_def mayClaimHover_def Let_def split: option.splits sum.splits if_splits)

lemmas page_fixture = onContainerMouseMove_def containerMouseMove_def normalize_event_def
  extend_def ePos_def chartAt_def mayClaimHover_def dragPage_def ownPage_def dragWorld_def
  farWorld_def world0_def chart0_def event0_def pointer0_def isInsidePlot_def minus64_def
  Math_round_def binary64_numeral Let_def

text \<open>
  Claim C10 as stated fails: the mouse is down in chart 0 while there is no hover chart
  index; a mouse move over chart 2 makes chart 2 the hover chart.
\<close>

theorem onContainerMouseMove_other_chart_down_counterexample:
  "chartAt dragPage 0 = Some dragWorld \<and>
   mouseIsDown (the_chart dragWorld) = Some ''mousedown'' \<and>
   hoverChartIndex dragPage = None \<and>
   (case onContainerMouseMove env0 2 0 dragPage of
      Inr G' \<Rightarrow> hoverChartIndex G' | Inl err \<Rightarrow> None) = Some 2"
  by (simp add: page_fixture)

text \<open>With chart 0 as the hover chart and its mouse down, a move over chart 2 keeps the index 0.\<close>

theorem onContainerMouseMove_hover_index_witness:
  "chartAt ownPage 2 = Some (farWorld 2) \<and> \<not> mayClaimHover ownPage \<and>
   (\<exists>G'. onContainerMouseMove env0 2 0 ownPage = Inr G' \<and> hoverChartIndex G' = Some 0)"
proof -
  have c: "chartAt ownPage 2 = Some (farWorld 2)"
    by (simp add: page_fixture)
  have m: "\<not> mayClaimHover ownPage"
    by (simp add: page_fixture)
  obtain G' where g: "onContainerMouseMove env0 2 0 ownPage = Inr G'"
    by (simp add: page_fixture)
  have "hoverChartIndex G' =
          (if mayClaimHover ownPage then Some (index (the_chart (farWorld 2)))
           else hoverChartIndex ownPage)"
    using onContainerMouseMove_hover_index[OF g c] by (rule conjunct1)
  with m have "hoverChartIndex G' = hoverChartIndex ownPage" by simp
  moreover have "hoverChartIndex ownPage = Some 0" by (simp add: ownPage_def)
  ultimately show ?thesis using c m g by simp
qed

section \<open>Drag threshold\<close>

lemma sameButDragged_refl: "sameButDragged w w"
  unfolding sameButDragged_def by (rule exI[of _ "hasDragged (the_pointer w)"]) simp

lemma sameButDragged_fields:
  assumes "sameButDragged w w'"
  shows "the_chart w' = the_chart w" "selMarker (the_pointer w') = selMarker (the_pointer w)"
    "mouseDownX (the_pointer w') = mouseDownX (the_pointer w)"
    "mouseDownY (the_pointer w') = mouseDownY (the_pointer w)"
    "zoomX (the_pointer w') = zoomX (the_pointer w)"
    "zoomY (the_pointer w') = zoomY (the_pointer w)"
    "trace w' = trace w"
  using assms by (auto simp: sameButDragged_def)

lemma sameButDragged_notions:
  assumes "sameButDragged w w'"
  shows "displacement w' e = displacement w e"
    "withinThreshold w' e = withinThreshold w e"
    "clickedInside w' = clickedInside w"
    "zoomSelects w' e = zoomSelects w e"
  by (simp_all add: displacement_def withinThreshold_def clickedInside_def zoomSelects_def
      sameButDragged_fields[OF assms] cong: option.case_cong)

lemma drag_touch:
  assumes "selMarker (the_pointer w) = Some m" "m_touch m"
  shows "drag E e w = w"
  using assms by (simp add: drag_def)

lemma drag_undefined:
  assumes "displacement w e = None" "\<not> (case selMarker (the_pointer w) of Some m \<Rightarrow> m_touch m | None \<Rightarrow> False)"
  shows "drag E e w = w\<lparr>the_pointer := (the_pointer w)\<lparr>hasDragged := None\<rparr>\<rparr>"
proof -
  have "(case (chartX e, chartY e, mouseDownX (the_pointer w), mouseDownY (the_pointer w)) of
          (Some cx0, Some cy0, Some mdx, Some mdy) \<Rightarrow> f cx0 cy0 mdx mdy
        | _ \<Rightarrow> g) = g" for f :: "real \<Rightarrow> real \<Rightarrow> real \<Rightarrow> real \<Rightarrow> world" and g
    using assms(1) by (simp add: displacement_def dragDistance_def split: option.splits)
  then show ?thesis using assms(2) by (simp add: drag_def)
qed

lemma drag_below:
  assumes "displacement w e = Some d" "d \<le> 10"
    "\<not> (case selMarker (the_pointer w) of Some m \<Rightarrow> m_touch m | None \<Rightarrow> False)"
  shows "drag E e w = w\<lparr>the_pointer := (the_pointer w)\<lparr>hasDragged := Some d\<rparr>\<rparr>"
proof -
  from assms(1) obtain cx cy mdx mdy where
    c: "chartX e = Some cx" "chartY e = Some cy" "mouseDownX (the_pointer w) = Some mdx"
       "mouseDownY (the_pointer w) = Some mdy"
    and d: "d = sqrt ((mdx - clampTo (plotLeft (the_chart w)) (plotWidth (the_chart w)) cx)\<^sup>2 +
                      (mdy - clampTo (plotTop (the_chart w)) (plotHeight (the_chart w)) cy)\<^sup>2)"
    by (auto simp: displacement_def dragDistance_def split: option.splits)
  show ?thesis using assms(2,3) unfolding d
    by (simp add: drag_def c Let_def)
qed

lemma drag_within:
  assumes "withinThreshold w e"
  shows "sameButDragged w (drag E e w)"
proof (cases "case selMarker (the_pointer w) of Some m \<Rightarrow> m_touch m | None \<Rightarrow> False")
  case True
  then have "drag E e w = w" by (auto simp: drag_touch split: option.splits)
  then show ?thesis by (simp add: sameButDragged_refl)
next
  case False
  show ?thesis
  proof (cases "displacement w e")
    case None
    from drag_undefined[OF None False] show ?thesis unfolding sameButDragged_def by blast
  next
    case (Some d)
    then have "d \<le> 10" using assms by (simp add: withinThreshold_def)
    from drag_below[OF Some this False] show ?thesis unfolding sameButDragged_def by blast
  qed
qed

lemma sameButDragged_trans:
  "sameButDragged w w' \<Longrightarrow> sameButDragged w' w'' \<Longrightarrow> sameButDragged w w''"
  unfolding sameButDragged_def by auto

lemma drags_within:
  assumes "\<forall>e\<in>set es. withinThreshold w e"
  shows "sameButDragged w (drags E es w)"
  using assms
proof (induction es arbitrary: w)
  case Nil
  then show ?case by (simp add: sameButDragged_refl)
next
  case (Cons e es)
  have 1: "sameButDragged w (drag E e w)" using Cons.prems by (simp add: drag_within)
  have "\<forall>e'\<in>set es. withinThreshold (drag E e w) e'"
    using Cons.prems sameButDragged_notions(2)[OF 1] by simp
  from Cons.IH[OF this] have "sameButDragged (drag E e w) (drags E es (drag E e w))" .
  with 1 show ?case by (simp add: sameButDragged_trans)
qed

lemma drag_crossing:
  assumes dd: "displacement w e = Some d" "d > 10" and sm: "selMarker (the_pointer w) = None"
  shows "(zoomSelects w e \<longrightarrow>
            selMarker (the_pointer (drag E e w)) \<noteq> None \<and> trace (drag E e w) = trace w) \<and>
         (\<not> zoomSelects w e \<and> clickedInside w \<and> panning (the_chart w) \<longrightarrow>
            trace (drag E e w) = trace w @ [ChartPan]) \<and>
         (\<not> zoomSelects w e \<and> \<not> (clickedInside w \<and> panning (the_chart w)) \<longrightarrow>
            selMarker (the_pointer (drag E e w)) = None \<and> trace (drag E e w) = trace w)"
proof -
  from dd(1) obtain cx cy mdx mdy where
    c: "chartX e = Some cx" "chartY e = Some cy" "mouseDownX (the_pointer w) = Some mdx"
       "mouseDownY (the_pointer w) = Some mdy"
    and d: "d = sqrt ((mdx - clampTo (plotLeft (the_chart w)) (plotWidth (the_chart w)) cx)\<^sup>2 +
                      (mdy - clampTo (plotTop (the_chart w)) (plotHeight (the_chart w)) cy)\<^sup>2)"
    by (auto simp: displacement_def dragDistance_def split: option.splits)
  have ci: "clickedInside w = isInsidePlot (the_chart w) (mdx - plotLeft (the_chart w))
              (mdy - plotTop (the_chart w)) False"
    by (simp add: clickedInside_def c)
  show ?thesis
  proof (cases "zoomSelects w e")
    case True
    then have z: "hasCartesianSeries (the_chart w) \<and> (zoomX (the_pointer w) \<or> zoomY (the_pointer w)) \<and>
       isInsidePlot (the_chart w) (mdx - plotLeft (the_chart w)) (mdy - plotTop (the_chart w)) False \<and>
       \<not> panKeyHeld (the_chart w) e"
      by (simp add: zoomSelects_def ci)
    show ?thesis using True dd(2) z unfolding d
      by (simp add: drag_def c sm Let_def)
  next
    case False
    then have z: "\<not> (hasCartesianSeries (the_chart w) \<and> (zoomX (the_pointer w) \<or> zoomY (the_pointer w)) \<and>
       isInsidePlot (the_chart w) (mdx - plotLeft (the_chart w)) (mdy - plotTop (the_chart w)) False \<and>
       \<not> panKeyHeld (the_chart w) e)"
      by (simp add: zoomSelects_def ci)
    show ?thesis using False dd(2) z unfolding d
      by (auto simp: drag_def c sm ci Let_def invoke_def)
  qed
qed


lemma dragStart_fields:
  "selMarker (the_pointer (dragStart e0 w0)) = selMarker (the_pointer w0)"
  "trace (dragStart e0 w0) = trace w0"
  "panning (the_chart (dragStart e0 w0)) = panning (the_chart w0)"
  by (simp_all add: dragStart_def)

text \<open>
  Claim C3, as amended. After \<open>dragStart\<close>, move events whose distance from the start
  is never above 10 pixels (or undefined) leave the selection marker and the trace of
  collaborator calls as they were: no marker is made and \<open>chart.pan\<close> is not called.
  Let there be no marker yet. The next move event, further than 10 pixels from the start,
  makes the marker when the chart has cartesian series, zoom is enabled on an axis, the
  drag started inside the plot area and the pan key is not held; else it calls
  \<open>chart.pan\<close> once when the drag started inside the plot area and panning is enabled;
  else it makes no marker and no call.
\<close>

theorem drag_threshold:
  assumes "\<forall>e\<in>set es. withinThreshold (dragStart e0 w0) e"
  shows "selMarker (the_pointer (drags E es (dragStart e0 w0))) = selMarker (the_pointer w0) \<and>
     trace (drags E es (dragStart e0 w0)) = trace w0 \<and>
     (\<forall>e d. selMarker (the_pointer w0) = None \<and>
             displacement (dragStart e0 w0) e = Some d \<and> d > 10 \<longrightarrow>
        (zoomSelects (dragStart e0 w0) e \<longrightarrow>
           selMarker (the_pointer (drag E e (drags E es (dragStart e0 w0)))) \<noteq> None \<and>
           trace (drag E e (drags E es (dragStart e0 w0))) = trace w0) \<and>
        (\<not> zoomSelects (dragStart e0 w0) e \<and> clickedInside (dragStart e0 w0) \<and>
         panning (the_chart w0) \<longrightarrow>
           trace (drag E e (drags E es (dragStart e0 w0))) = trace w0 @ [ChartPan]) \<and>
        (\<not> zoomSelects (dragStart e0 w0) e \<and>
         \<not> (clickedInside (dragStart e0 w0) \<and> panning (the_chart w0)) \<longrightarrow>
           selMarker (the_pointer (drag E e (drags E es (dragStart e0 w0)))) = None \<and>
           trace (drag E e (drags E es (dragStart e0 w0))) = trace w0))"
proof -
  define w where "w = dragStart e0 w0"
  define w1 where "w1 = drags E es w"
  have s: "sameButDragged w w1"
    unfolding w1_def using assms by (intro drags_within) (simp add: w_def)
  note f = sameButDragged_fields[OF s] and n = sameButDragged_notions[OF s]
  have a: "selMarker (the_pointer w1) = selMarker (the_pointer w0)" "trace w1 = trace w0"
    using f(2,7) by (simp_all add: w_def dragStart_fields)
  have b: "(zoomSelects w e \<longrightarrow>
           selMarker (the_pointer (drag E e w1)) \<noteq> None \<and> trace (drag E e w1) = trace w0) \<and>
        (\<not> zoomSelects w e \<and> clickedInside w \<and> panning (the_chart w0) \<longrightarrow>
           trace (drag E e w1) = trace w0 @ [ChartPan]) \<and>
        (\<not> zoomSelects w e \<and> \<not> (clickedInside w \<and> panning (the_chart w0)) \<longrightarrow>
           selMarker (the_pointer (drag E e w1)) = None \<and> trace (drag E e w1) = trace w0)"
    if h: "selMarker (the_pointer w0) = None" "displacement w e = Some d" "d > 10" for e d
  proof -
    have 1: "displacement w1 e = Some d" using h(2) n(1) by simp
    have 2: "selMarker (the_pointer w1) = None" using a(1) h(1) by simp
    have 3: "panning (the_chart w1) = panning (the_chart w0)"
      using f(1) by (simp add: w_def dragStart_fields)
    from drag_crossing[OF 1 h(3) 2, of E] show ?thesis
      unfolding n 3 a(2) .
  qed
  show ?thesis using a b unfolding w1_def w_def by blast
qed

lemma sqrt_2500: "sqrt 2500 = 50" by (rule real_sqrt_unique) simp_all
lemma sqrt_25: "sqrt 25 = 5" by (rule real_sqrt_unique) simp_all

lemmas drag_fixture = drag_def dragStart_def displacement_def dragDistance_def clampTo_def
  clickedInside_def zoomSelects_def withinThreshold_def isInsidePlot_def panKeyHeld_def
  zoomWorld_def pieWorld_def world0_def chart0_def pointer0_def event0_def env0_def
  downEvent_def nearEvent_def moveEvent_def sqrt_2500 sqrt_25 Let_def invoke_def

text \<open>
  Claim C3 as stated fails: zoom along x is enabled, the drag starts inside the plot
  area, no key is held and the move is 50 pixels long, but the chart has no cartesian
  series: no marker is made, and nothing is called.
\<close>

theorem drag_no_cartesian_counterexample:
  "zoomX (the_pointer pieWorld) \<and> clickedInside (dragStart downEvent pieWorld) \<and>
   \<not> panKeyHeld (the_chart pieWorld) moveEvent \<and>
   displacement (dragStart downEvent pieWorld) moveEvent = Some 50 \<and>
   selMarker (the_pointer (drag env0 moveEvent (dragStart downEvent pieWorld))) = None \<and>
   trace (drag env0 moveEvent (dragStart downEvent pieWorld)) = []"
  by (simp add: drag_fixture)

text \<open>With cartesian series: a move of 5 pixels does nothing, the move of 50 pixels makes the marker.\<close>

theorem drag_threshold_witness:
  "withinThreshold (dragStart downEvent zoomWorld) nearEvent \<and>
   selMarker (the_pointer zoomWorld) = None \<and>
   displacement (dragStart downEvent zoomWorld) moveEvent = Some 50 \<and>
   zoomSelects (dragStart downEvent zoomWorld) moveEvent \<and>
   selMarker (the_pointer (drags env0 [nearEvent] (dragStart downEvent zoomWorld))) = None \<and>
   trace (drags env0 [nearEvent] (dragStart downEvent zoomWorld)) = [] \<and>
   selMarker (the_pointer (drag env0 moveEvent (drags env0 [nearEvent] (dragStart downEvent zoomWorld))))
     \<noteq> None"
proof -
  have t: "\<forall>e\<in>set [nearEvent]. withinThreshold (dragStart downEvent zoomWorld) e"
    by (simp add: drag_fixture)
  have m: "selMarker (the_pointer zoomWorld) = None" "trace zoomWorld = []"
    by (simp_all add: drag_fixture)
  have d: "displacement (dragStart downEvent zoomWorld) moveEvent = Some 50"
    by (simp add: drag_fixture)
  have z: "zoomSelects (dragStart downEvent zoomWorld) moveEvent"
    by (simp add: drag_fixture)
  from drag_threshold[OF t, of env0] t m d z show ?thesis by simp
qed

section \<open>Reset twice\<close>

lemma reset_full:
  "\<exists>w1. reset E False d w = Inr w1 \<and> hoverPoint (the_chart w1) = None \<and>
         hoverPoints (the_chart w1) = None \<and> hoverX (the_pointer w1) = None"
  by (simp add: reset_def Let_def)

text \<open>
  Claim C5. In every state of the chart, with or without a hover point, hover series or
  hover points, a full reset (\<open>reset(false)\<close>, or \<open>reset()\<close>) returns without an
  error and leaves \<open>hoverPoint\<close>, \<open>hoverPoints\<close> and \<open>hoverX\<close> \<open>null\<close>; so does a second
  full reset after it, with the same values of these fields. Collaborators are taken to
  return.
\<close>

theorem reset_idempotent:
  "\<exists>w1 w2. reset E False d w = Inr w1 \<and>
     hoverPoint (the_chart w1) = None \<and> hoverPoints (the_chart w1) = None \<and>
     hoverX (the_pointer w1) = None \<and>
     reset E False d' w1 = Inr w2 \<and>
     hoverPoint (the_chart w2) = None \<and> hoverPoints (the_chart w2) = None \<and>
     hoverX (the_pointer w2) = None"
proof -
  obtain w1 where 1: "reset E False d w = Inr w1" "hoverPoint (the_chart w1) = None"
    "hoverPoints (the_chart w1) = None" "hoverX (the_pointer w1) = None"
    using reset_full[of E d w] by blast
  obtain w2 where 2: "reset E False d' w1 = Inr w2" "hoverPoint (the_chart w2) = None"
    "hoverPoints (the_chart w2) = None" "hoverX (the_pointer w2) = None"
    using reset_full[of E d' w1] by blast
  from 1 2 show ?thesis by blast
qed

lemmas reset_fixture = reset_def hide_def clearTimeout_def syncTimeout_def hideCallback_def
  updTooltip_def invoke_def hoverWorld_def world0_def chart0_def pointer0_def tooltip0_def
  env0_def Let_def

text \<open>Two resets of the chart that hovers the point 0.\<close>

theorem reset_idempotent_witness:
  "hoverPoint (the_chart hoverWorld) = Some 0 \<and>
   (\<exists>w1 w2. reset env0 False None hoverWorld = Inr w1 \<and>
     hoverPoint (the_chart w1) = None \<and>
     trace w1 = [PointOnMouseOut 0, PointSetState 0 None False, SeriesOnMouseOut 0] \<and>
     pending w1 = [(0, HideTask 500)] \<and>
     reset env0 False None w1 = Inr w2 \<and> hoverPoint (the_chart w2) = None)"
proof -
  obtain w1 w2 where r: "reset env0 False None hoverWorld = Inr w1"
     "hoverPoint (the_chart w1) = None" "reset env0 False None w1 = Inr w2"
     "hoverPoint (the_chart w2) = None"
    using reset_idempotent[of env0 None hoverWorld None] by blast
  have a: "trace w1 = [PointOnMouseOut 0, PointSetState 0 None False, SeriesOnMouseOut 0]"
      "pending w1 = [(0, HideTask 500)]"
    using r(1) by (auto simp: reset_fixture)
  have h: "hoverPoint (the_chart hoverWorld) = Some 0"
    by (simp add: hoverWorld_def)
  from r a h show ?thesis by blast
qed

section \<open>A hover point destroyed during reconciliation\<close>

lemma orderly_refl: "orderly K E \<Longrightarrow> K w w"
  unfolding orderly_def by (elim conjE allE)

lemma orderly_trans: "orderly K E \<Longrightarrow> K a b \<Longrightarrow> K b c \<Longrightarrow> K a c"
  unfolding orderly_def by (elim conjE) (erule allE[of _ a], erule allE[of _ b], erule allE[of _ c], simp)

lemma orderly_invoke: "orderly K E \<Longrightarrow> K w (invoke E c w)"
  unfolding orderly_def by (elim conjE) (erule allE[of _ c], erule allE[of _ w])

lemma follows_refl: "orderly K E \<Longrightarrow> follows P K w w"
  by (simp add: follows_def orderly_refl)

lemma follows_trans:
  assumes "orderly K E" "follows P K a b" "follows P K b c"
  shows "follows P K a c"
proof -
  from assms(2,3) obtain cs ds where "trace b = trace a @ cs" "list_all P cs"
    "trace c = trace b @ ds" "list_all P ds" and k: "K a b" "K b c"
    unfolding follows_def by blast
  then have "trace c = trace a @ (cs @ ds) \<and> list_all P (cs @ ds)" by simp
  moreover have "K a c" using orderly_trans[OF assms(1) k] .
  ultimately show ?thesis unfolding follows_def by blast
qed

lemma follows_invoke:
  assumes "orderly K E" "P c"
  shows "follows P K w (invoke E c w)"
proof -
  have "trace (invoke E c w) = trace w @ [c] \<and> list_all P [c]"
    using assms(2) by (simp add: invoke_def)
  moreover have "K w (invoke E c w)" using assms(1) by (rule orderly_invoke)
  ultimately show ?thesis unfolding follows_def by blast
qed

lemma follows_setStates:
  assumes "orderly K E" "\<And>p. P (PointSetState p st False)"
  shows "follows P K w (setStates E st ps w)"
proof (induction ps arbitrary: w)
  case Nil
  show ?case by (simp add: follows_refl[OF assms(1)])
next
  case (Cons p ps)
  have "follows P K w (invoke E (PointSetState p st False) w)"
    by (rule follows_invoke[OF assms(1)]) (rule assms(2))
  from follows_trans[OF assms(1) this Cons.IH] show ?case by simp
qed

lemma follows_setInactive:
  assumes "orderly K E" "\<And>s. P (SeriesSetState s ''inactive'' True)"
  shows "follows P K w (setInactive E act ss w)"
proof (induction ss arbitrary: w)
  case Nil
  show ?case by (simp add: follows_refl[OF assms(1)])
next
  case (Cons s ss)
  have "follows P K w (if inactiveOtherPoints (allSeries w s) \<or> s \<notin> set act
        then invoke E (SeriesSetState s ''inactive'' True) w else w)"
    by (simp add: follows_invoke[OF assms(1)] assms(2) follows_refl[OF assms(1)])
  from follows_trans[OF assms(1) this Cons.IH] show ?case by simp
qed

lemma hoverKept_refl: "hoverKept w w"
  by (simp add: hoverKept_def)

lemma hoverKept_trans: "hoverKept a b \<Longrightarrow> hoverKept b c \<Longrightarrow> hoverKept a c"
  by (simp add: hoverKept_def)

lemma keepsHover_invoke:
  assumes "keepsHover E"
  shows "hoverKept w (invoke E c w)" "the_tooltip (invoke E c w) = the_tooltip w"
    "pending (invoke E c w) = pending w" "nextTimer (invoke E c w) = nextTimer w"
proof -
  have "hoverKept w (effect E c w) \<and> the_tooltip (effect E c w) = the_tooltip w \<and>
        pending (effect E c w) = pending w \<and> nextTimer (effect E c w) = nextTimer w"
    using assms unfolding keepsHover_def by blast
  then show "hoverKept w (invoke E c w)" "the_tooltip (invoke E c w) = the_tooltip w"
    "pending (invoke E c w) = pending w" "nextTimer (invoke E c w) = nextTimer w"
    by (simp_all add: hoverKept_def invoke_def)
qed

lemma orderly_untouched: "orderly (untouched (keepsHover E)) E"
proof -
  have r: "untouched (keepsHover E) w w" for w
    by (simp add: untouched_def hoverKept_refl)
  have t: "untouched (keepsHover E) a b \<and> untouched (keepsHover E) b c \<longrightarrow>
           untouched (keepsHover E) a c" for a b c
    using hoverKept_trans[of a b c] by (auto simp: untouched_def)
  have i: "untouched (keepsHover E) w (invoke E c w)" for c w
    using keepsHover_invoke by (simp add: untouched_def)
  show ?thesis unfolding orderly_def
  proof (intro conjI allI)
    show "untouched (keepsHover E) w w" for w by (rule r)
    show "untouched (keepsHover E) a b \<and> untouched (keepsHover E) b c \<longrightarrow>
           untouched (keepsHover E) a c" for a b c by (rule t)
    show "untouched (keepsHover E) w (invoke E c w)" for c w by (rule i)
  qed
qed

lemma follows_reconcileHead:
  assumes o: "orderly K E" and P: "\<And>c. headCall c \<Longrightarrow> P c"
    and r: "reconcileHead E pts hs w = Inr w5"
  shows "follows P K w w5"
proof -
  define w1 where "w1 = setStates E None
                 (filter (\<lambda>p. p \<notin> set pts)
                    (case hoverPoints (the_chart w) of Some ps \<Rightarrow> ps | None \<Rightarrow> [])) w"
  have 1: "follows P K w w1" unfolding w1_def
    by (rule follows_setStates[OF o]) (simp add: P)
  from r obtain w2 where w2: "(if hoverSeries (the_chart w1) \<noteq> hs
               then (case hs of None \<Rightarrow> Inl TypeError
                     | Some s \<Rightarrow> Inr (invoke E (SeriesOnMouseOver s) w1))
               else Inr w1) = Inr w2"
    unfolding reconcileHead_def w1_def[symmetric] Let_def
    by (auto split: sum.splits)
  have 2: "follows P K w1 w2"
    using w2 by (auto split: if_splits option.splits
        simp: follows_refl[OF o] follows_invoke[OF o] P)
  from r w2 obtain act where act: "getActiveSeries w2 pts = Inr act"
    unfolding reconcileHead_def w1_def[symmetric] Let_def
    by (auto split: sum.splits)
  define w3 where "w3 = setInactive E act (c_series (the_chart w2)) w2"
  define w4 where "w4 = setStates E (Some ''hover'') pts w3"
  have 3: "follows P K w2 w3" unfolding w3_def
    by (rule follows_setInactive[OF o]) (simp add: P)
  have 4: "follows P K w3 w4" unfolding w4_def
    by (rule follows_setStates[OF o]) (simp add: P)
  have w5: "w5 = (case hoverPoint (the_chart w4) of
                             Some q \<Rightarrow> invoke E (PointFireEvent q ''mouseOut'') w4
                           | None \<Rightarrow> w4)"
    using r w2 act unfolding reconcileHead_def w1_def[symmetric] Let_def w3_def w4_def
    by simp
  have 5: "follows P K w4 w5" unfolding w5
    by (auto split: option.splits simp: follows_refl[OF o] follows_invoke[OF o] P)
  show ?thesis
    using follows_trans[OF o] 1 2 3 4 5 by blast
qed

text \<open>
  The check \<open>if (!hoverPoint.series) return\<close> (#7127). Let \<open>runPointActions\<close> resolve a
  hover point that is new, or let the tooltip be hidden, let the steps before the check
  return, and let the hover point have no series after them. Then \<open>runPointActions\<close>
  returns the state reached by these steps, without an error, and the calls made are
  state changes of points and series, the mouse over of the series and \<open>mouseOut\<close> of
  the old hover point: no \<open>mouseOver\<close> of a point, no call for the tooltip and no
  crosshair call.
\<close>

lemma runPointActions_guard:
  assumes "resolveHover E e p w = Inr hoverData'"
    and "hd_hoverPoint hoverData' = Some hp"
    and "Some hp \<noteq> hoverPoint (the_chart w) \<or> tooltipHidden w"
    and "reconcileHead E (hd_hoverPoints hoverData') (hd_hoverSeries hoverData') w = Inr w5"
    and "p_series (points w5 hp) = None"
  shows "runPointActions E e p w = Inr w5 \<and>
     (\<exists>cs. trace w5 = trace w @ cs \<and> list_all headCall cs)"
proof -
  have 1: "runPointActions E e p w = Inr w5"
    unfolding runPointActions_def using assms by (simp add: Let_def)
  have "follows headCall (untouched (keepsHover E)) w w5"
    by (rule follows_reconcileHead[OF orderly_untouched _ assms(4)])
  then have "\<exists>cs. trace w5 = trace w @ cs \<and> list_all headCall cs"
    by (auto simp: follows_def)
  with 1 show ?thesis by simp
qed

lemmas hover_fixture = resolveHover_def getHoverData_def findNearestKDPoint_def compareX_def
  seriesFilter_def sharedTooltip_def enabledTooltip_def tooltipHidden_def
  reconcileHead_def invoke_def destroyOn_def hoverWorld_def world0_def chart0_def pointer0_def
  tooltip0_def point0_def series0_def event0_def env0_def Let_def

text \<open>
  The chart hovers the point 0 and the new hover point is 1. When the \<open>mouseOut\<close>
  handler of the point 0 destroys the point 1, the check is reached and the pass ends
  there: the hover point and the hover points of the chart are still those of before.
\<close>

lemma runPointActions_guard_example:
  "resolveHover (destroyOn (PointFireEvent 0 ''mouseOut'')) event0 None hoverWorld
     = Inr \<lparr>hd_hoverPoint = Some 1, hd_hoverSeries = Some 0, hd_hoverPoints = [1]\<rparr> \<and>
   (\<exists>w5. runPointActions (destroyOn (PointFireEvent 0 ''mouseOut'')) event0 None hoverWorld = Inr w5 \<and>
      p_series (points w5 1) = None \<and>
      trace w5 = [PointSetState 0 None False, PointSetState 1 (Some ''hover'') False,
                  PointFireEvent 0 ''mouseOut''] \<and>
      hoverPoint (the_chart w5) = Some 0 \<and> hoverPoints (the_chart w5) = Some [0])"
  by (simp add: runPointActions_def hover_fixture)

text \<open>
  Claim C8: a hover point destroyed by an earlier step of the pass makes
  \<open>runPointActions\<close> return without throwing. The code fails the claim when the point
  is destroyed in the state-clearing step. The chart hovers the point 0, the new hover
  point is 1 (it has its series when it is resolved), and clearing the state of the point
  0 destroys the point 1. Before the check \<open>if (!hoverPoint.series) return\<close> is reached,
  \<open>getActiveSeries\<close> reads \<open>series.linkedParent\<close> of the point without series:
  \<open>runPointActions\<close> ends with a \<open>TypeError\<close>.
\<close>

theorem runPointActions_destroyed_early:
  "resolveHover (destroyOn (PointSetState 0 None False)) event0 None hoverWorld
     = Inr \<lparr>hd_hoverPoint = Some 1, hd_hoverSeries = Some 0, hd_hoverPoints = [1]\<rparr> \<and>
   p_series (points hoverWorld 1) = Some 0 \<and>
   p_series (points (setStates (destroyOn (PointSetState 0 None False)) None [0] hoverWorld) 1) = None \<and>
   runPointActions (destroyOn (PointSetState 0 None False)) event0 None hoverWorld = Inl TypeError"
  by (simp add: runPointActions_def hover_fixture)

text \<open>So the pass of this example returns no state: its outcome is the error.\<close>

theorem runPointActions_destroyed_early_witness:
  "(case runPointActions (destroyOn (PointSetState 0 None False)) event0 None hoverWorld of
      Inr w' \<Rightarrow> None | Inl err \<Rightarrow> Some err) = Some TypeError"
  using runPointActions_destroyed_early by simp

section \<open>One hide timer\<close>




lemma timerInv_quiet:
  assumes "pending w = []" "the_tooltip w = Some t" "enabled t \<or> isHidden t"
  shows "timerInv w"
  using assms by (auto simp: timerInv_def)

















section \<open>Reset that moves the tooltip\<close>

































end
